theory Spec2Isabelle
  imports Complex_Main "HOL-Library.Sublist"
begin

section \<open>JavaScript values\<close>

text \<open>
  The endpoint \<^verbatim>\<open>src/pages/api/npm-audit.ts\<close> works on untyped JavaScript values: the
  request body, the value returned by \<^verbatim>\<open>JSON.parse\<close> and the objects handed to
  \<^verbatim>\<open>res.json\<close>. They are modelled by one datatype. An object is the list of its own
  properties in enumeration order, with distinct keys; numbers are idealised as rationals
  (no NaN, no infinities, no rounding).
\<close>

datatype jsval =
    JUndefined
  | JNull
  | JBool bool
  | JNum rat
  | JStr string
  | JArr "jsval list"
  | JObj "(string \<times> jsval) list"

text \<open>A thrown \<^verbatim>\<open>Error\<close>: the two properties the endpoint reads from it.\<close>

record js_error =
  message :: string
  stack :: string

text \<open>JavaScript truthiness, as used by \<^verbatim>\<open>!x\<close>, \<^verbatim>\<open>x || y\<close> and \<^verbatim>\<open>x ? a : b\<close>.\<close>

fun truthy :: "jsval \<Rightarrow> bool" where
  "truthy JUndefined = False"
| "truthy JNull = False"
| "truthy (JBool b) = b"
| "truthy (JNum n) = (n \<noteq> 0)"
| "truthy (JStr s) = (s \<noteq> [])"
| "truthy (JArr xs) = True"
| "truthy (JObj kvs) = True"

text \<open>The operator \<^verbatim>\<open>typeof\<close>.\<close>

fun typeof :: "jsval \<Rightarrow> string" where
  "typeof JUndefined = ''undefined''"
| "typeof JNull = ''object''"
| "typeof (JBool b) = ''boolean''"
| "typeof (JNum n) = ''number''"
| "typeof (JStr s) = ''string''"
| "typeof (JArr xs) = ''object''"
| "typeof (JObj kvs) = ''object''"

text \<open>\<^verbatim>\<open>x || y\<close> on values.\<close>

definition js_or :: "jsval \<Rightarrow> jsval \<Rightarrow> jsval" where
  "js_or x y = (if truthy x then x else y)"

text \<open>
  \<^verbatim>\<open>Number.prototype.toString\<close> is a built-in of the engine. ECMA-262 fixes its value at
  zero (\<^verbatim>\<open>"0"\<close>); its value elsewhere is a parameter \<open>fmt\<close> of the model.
\<close>

definition number_toString :: "(rat \<Rightarrow> string) \<Rightarrow> rat \<Rightarrow> string" where
  "number_toString fmt n = (if n = 0 then ''0'' else fmt n)"

fun join_comma :: "string list \<Rightarrow> string" where
  "join_comma [] = []"
| "join_comma [s] = s"
| "join_comma (s # t # ss) = s @ '','' @ join_comma (t # ss)"

text \<open>
  The abstract operation ToString, applied by a template literal to each substitution.
  An array prints its elements separated by commas, \<^verbatim>\<open>null\<close> and \<^verbatim>\<open>undefined\<close>
  elements as the empty string; a plain object prints as \<^verbatim>\<open>[object Object]\<close>.
\<close>

fun js_toString :: "(rat \<Rightarrow> string) \<Rightarrow> jsval \<Rightarrow> string" where
  "js_toString fmt JUndefined = ''undefined''"
| "js_toString fmt JNull = ''null''"
| "js_toString fmt (JBool b) = (if b then ''true'' else ''false'')"
| "js_toString fmt (JNum n) = number_toString fmt n"
| "js_toString fmt (JStr s) = s"
| "js_toString fmt (JArr xs) =
     join_comma (map (\<lambda>x. if x = JUndefined \<or> x = JNull then [] else js_toString fmt x) xs)"
| "js_toString fmt (JObj kvs) = ''[object Object]''"

text \<open>Decimal numerals, for the index keys that \<^verbatim>\<open>Object.entries\<close> gives an array.\<close>

definition digit_char :: "nat \<Rightarrow> char" where
  "digit_char d = char_of (48 + d)"

function show_nat :: "nat \<Rightarrow> string" where
  "show_nat n = (if n < 10 then [digit_char n] else show_nat (n div 10) @ [digit_char (n mod 10)])"
  by pat_completeness auto
termination
  by (relation "measure id") auto

declare show_nat.simps [simp del]

text \<open>
  \<^verbatim>\<open>Object.entries\<close> on a value that is not \<^verbatim>\<open>null\<close> or \<^verbatim>\<open>undefined\<close> (the endpoint
  only applies it to a truthy value or to \<^verbatim>\<open>{}\<close>): the own enumerable properties of an
  object, the indexed elements of an array, the indexed characters of a string, nothing
  for a number or a boolean.
\<close>

fun Object_entries :: "jsval \<Rightarrow> (string \<times> jsval) list" where
  "Object_entries (JObj kvs) = kvs"
| "Object_entries (JArr xs) = zip (map show_nat [0..<length xs]) xs"
| "Object_entries (JStr s) = zip (map show_nat [0..<length s]) (map (\<lambda>c. JStr [c]) s)"
| "Object_entries v = []"


section \<open>The world outside the endpoint\<close>

text \<open>
  A child process either exits with status zero, leaving its standard output and standard
  error, or fails; \<^verbatim>\<open>promisify(exec)\<close> then rejects with an error that carries a
  message and the output captured so far.
\<close>

datatype exec_result =
    ExecOk string string
  | ExecErr string string string

fun exec_stdout :: "exec_result \<Rightarrow> string" where
  "exec_stdout (ExecOk out err) = out"
| "exec_stdout (ExecErr msg out err) = out"

fun exec_stderr :: "exec_result \<Rightarrow> string" where
  "exec_stderr (ExecOk out err) = err"
| "exec_stderr (ExecErr msg out err) = err"

text \<open>
  The effects of a request are its calls to \<^verbatim>\<open>fs\<close> that change the file system and its
  child processes. The world is the file system (existing directories, files with their
  contents) and the trace of the effects so far, oldest first.
\<close>

datatype event =
    Mkdtemp string
  | WriteFile string string
  | Exec string string exec_result
  | RmSync string

record world =
  dirs :: "string list"
  files :: "(string \<times> string) list"
  trace :: "event list"

text \<open>
  What the endpoint cannot decide itself is a parameter: the temporary root, the name
  \<^verbatim>\<open>mkdtempSync\<close> picks (or the error it throws), what a command does to the file
  system and how it exits, \<^verbatim>\<open>JSON.parse\<close> (\<open>Inl\<close> carries the message of the
  SyntaxError), \<^verbatim>\<open>JSON.stringify(_, null, 2)\<close>, the engine's printing of non-zero numbers
  and the stack trace it attaches to an error with a given message.
\<close>

record env =
  tmpdir :: string
  mkdtemp :: "string \<Rightarrow> world \<Rightarrow> js_error + string"
  spawn :: "string \<Rightarrow> string \<Rightarrow> world \<Rightarrow> exec_result \<times> world"
  JSON_parse :: "string \<Rightarrow> string + jsval"
  JSON_stringify :: "jsval \<Rightarrow> string"
  number_format :: "rat \<Rightarrow> string"
  stack_of :: "string \<Rightarrow> string"

definition js_throw :: "env \<Rightarrow> string \<Rightarrow> js_error" where
  "js_throw env msg = \<lparr>message = msg, stack = stack_of env msg\<rparr>"

definition quoted :: "string \<Rightarrow> string" where
  "quoted s = [CHR 0x27] @ s @ [CHR 0x27]"

text \<open>
  \<^verbatim>\<open>path.join(d, f)\<close> for a normalised path \<open>d\<close> (what \<^verbatim>\<open>os.tmpdir\<close> and
  \<^verbatim>\<open>mkdtempSync\<close> return) and a plain file name \<open>f\<close>: one separator between the two,
  none after the root or after an empty path.
\<close>

definition path_join :: "string \<Rightarrow> string \<Rightarrow> string" where
  "path_join d f =
     (if d = [] then f
      else if last d = CHR ''/'' then d @ f
      else d @ ''/'' @ f)"

definition mkdtempSync :: "env \<Rightarrow> string \<Rightarrow> world \<Rightarrow> (js_error + string) \<times> world" where
  "mkdtempSync env pre w =
     (case mkdtemp env pre w of
        Inl e \<Rightarrow> (Inl e, w)
      | Inr d \<Rightarrow> (Inr d, w\<lparr>dirs := d # dirs w, trace := trace w @ [Mkdtemp d]\<rparr>))"

text \<open>The endpoint writes only into the directory it has just created, so the write succeeds.\<close>

definition writeFileSync :: "string \<Rightarrow> string \<Rightarrow> world \<Rightarrow> world" where
  "writeFileSync p c w =
     w\<lparr>files := (p, c) # filter (\<lambda>pc. fst pc \<noteq> p) (files w),
       trace := trace w @ [WriteFile p c]\<rparr>"

definition readFileSync :: "env \<Rightarrow> string \<Rightarrow> world \<Rightarrow> js_error + string" where
  "readFileSync env p w =
     (case map_of (files w) p of
        None \<Rightarrow> Inl (js_throw env (''ENOENT: no such file or directory, open '' @ quoted p))
      | Some c \<Rightarrow> Inr c)"

definition is_under :: "string \<Rightarrow> string \<Rightarrow> bool" where
  "is_under d p = (p = d \<or> prefix (d @ ''/'') p)"

text \<open>\<^verbatim>\<open>fs.rmSync(d, { recursive: true, force: true })\<close>: the directory and all below it.\<close>

definition rmSync :: "string \<Rightarrow> world \<Rightarrow> world" where
  "rmSync d w =
     w\<lparr>dirs := filter (\<lambda>p. \<not> is_under d p) (dirs w),
       files := filter (\<lambda>pc. \<not> is_under d (fst pc)) (files w),
       trace := trace w @ [RmSync d]\<rparr>"

text \<open>\<^verbatim>\<open>await execPromise(cmd, { cwd })\<close>: the command runs and the call is recorded.\<close>

definition execPromise :: "env \<Rightarrow> string \<Rightarrow> string \<Rightarrow> world \<Rightarrow> exec_result \<times> world" where
  "execPromise env cmd cwd w =
     (case spawn env cmd cwd w of
        (r, w') \<Rightarrow> (r, w'\<lparr>trace := trace w @ [Exec cmd cwd r]\<rparr>))"

section \<open>Property access and exceptions\<close>

definition bind_err :: "'e + 'a \<Rightarrow> ('a \<Rightarrow> 'e + 'b) \<Rightarrow> 'e + 'b" where
  "bind_err m f = (case m of Inl e \<Rightarrow> Inl e | Inr x \<Rightarrow> f x)"

fun map_err :: "('a \<Rightarrow> 'e + 'b) \<Rightarrow> 'a list \<Rightarrow> 'e + 'b list" where
  "map_err f [] = Inr []"
| "map_err f (x # xs) =
     (case f x of
        Inl e \<Rightarrow> Inl e
      | Inr y \<Rightarrow> (case map_err f xs of Inl e \<Rightarrow> Inl e | Inr ys \<Rightarrow> Inr (y # ys)))"

text \<open>
  \<^verbatim>\<open>v.k\<close> for the property names the endpoint reads (none of them is an index or a
  property of a built-in prototype): a TypeError on \<^verbatim>\<open>null\<close> and \<^verbatim>\<open>undefined\<close>, the own
  property of an object, \<^verbatim>\<open>undefined\<close> otherwise.
\<close>

definition own_prop :: "(string \<times> jsval) list \<Rightarrow> string \<Rightarrow> jsval" where
  "own_prop kvs k = (case map_of kvs k of None \<Rightarrow> JUndefined | Some v \<Rightarrow> v)"

fun get_prop :: "env \<Rightarrow> jsval \<Rightarrow> string \<Rightarrow> js_error + jsval" where
  "get_prop env JUndefined k =
     Inl (js_throw env (''Cannot read properties of undefined (reading '' @ quoted k @ '')''))"
| "get_prop env JNull k =
     Inl (js_throw env (''Cannot read properties of null (reading '' @ quoted k @ '')''))"
| "get_prop env (JObj kvs) k = Inr (own_prop kvs k)"
| "get_prop env v k = Inr JUndefined"

text \<open>\<^verbatim>\<open>v.k?.j\<close>: the optional chain stops at a \<^verbatim>\<open>null\<close> or \<^verbatim>\<open>undefined\<close> \<^verbatim>\<open>v.k\<close>.\<close>

definition get_opt_chain :: "env \<Rightarrow> jsval \<Rightarrow> string \<Rightarrow> string \<Rightarrow> js_error + jsval" where
  "get_opt_chain env v k j =
     bind_err (get_prop env v k)
       (\<lambda>x. if x = JUndefined \<or> x = JNull then Inr JUndefined else get_prop env x j)"

text \<open>\<^verbatim>\<open>const { dependencies } = req.body\<close>.\<close>

definition destructure :: "env \<Rightarrow> jsval \<Rightarrow> string \<Rightarrow> js_error + jsval" where
  "destructure env v k =
     (if v = JUndefined \<or> v = JNull then
        Inl (js_throw env (''Cannot destructure property '' @ quoted k @ '' of '' @
               quoted ''req.body'' @ '' as it is '' @ js_toString (number_format env) v @ ''.''))
      else get_prop env v k)"


section \<open>The audit endpoint\<close>

record request =
  req_method :: string
  req_body :: jsval

text \<open>\<^verbatim>\<open>res.status(code).json(value)\<close>: the status and the value handed to \<^verbatim>\<open>json\<close>.\<close>

record response =
  status :: nat
  json :: jsval

text \<open>
  The file holds three variants of \<^verbatim>\<open>handler\<close>, one after the other. Each is modelled as
  a function from the environment, the request and the world to the response and the new
  world. Calls of \<^verbatim>\<open>console.log\<close> and \<^verbatim>\<open>console.error\<close> only print and are left out,
  but a \<^verbatim>\<open>fs.readFileSync\<close> among their arguments is kept: it throws when the file is
  missing.
\<close>

subsection \<open>Normalising the findings (identical in the three variants)\<close>

text \<open>\<^verbatim>\<open>Array.isArray(info.via) ? info.via[0] : info.via\<close>; an empty array has no first element.\<close>

fun viaInfo :: "jsval \<Rightarrow> jsval" where
  "viaInfo (JArr []) = JUndefined"
| "viaInfo (JArr (x # xs)) = x"
| "viaInfo via = via"

text \<open>
  The template literal
  \<^verbatim>\<open>`Upgrade ${info.fixAvailable.name} to version ${info.fixAvailable.version}`\<close>
  or the fixed text, by the truthiness of \<^verbatim>\<open>info.fixAvailable\<close>.
\<close>

definition recommendation_text :: "env \<Rightarrow> jsval \<Rightarrow> js_error + jsval" where
  "recommendation_text env fixAvailable =
     (if truthy fixAvailable then
        bind_err (get_prop env fixAvailable ''name'') (\<lambda>n.
        bind_err (get_prop env fixAvailable ''version'') (\<lambda>v.
        Inr (JStr (''Upgrade '' @ js_toString (number_format env) n @ '' to version '' @
                    js_toString (number_format env) v))))
      else Inr (JStr ''No specific recommendation''))"

text \<open>
  The function mapped over \<^verbatim>\<open>Object.entries(auditOutput.vulnerabilities || {})\<close>. The
  properties of the object literal are evaluated in the order written; the first
  TypeError ends the evaluation.
\<close>

definition to_vulnerability :: "env \<Rightarrow> string \<times> jsval \<Rightarrow> js_error + jsval" where
  "to_vulnerability env entry =
     (case entry of (name, info) \<Rightarrow>
        bind_err (get_prop env info ''via'') (\<lambda>via.
        bind_err (get_prop env info ''range'') (\<lambda>range.
        bind_err (if typeof (viaInfo via) = ''object'' then get_prop env (viaInfo via) ''title''
                  else Inr (viaInfo via)) (\<lambda>vulnerability.
        bind_err (get_prop env info ''severity'') (\<lambda>severity.
        bind_err (get_prop env info ''fixAvailable'') (\<lambda>fixAvailable.
        bind_err (recommendation_text env fixAvailable) (\<lambda>recommend.
        bind_err (if typeof (viaInfo via) = ''object''
                  then get_opt_chain env (viaInfo via) ''cvss'' ''score''
                  else Inr JUndefined) (\<lambda>cvssScore.
        bind_err (if typeof (viaInfo via) = ''object''
                  then get_opt_chain env (viaInfo via) ''cvss'' ''vectorString''
                  else Inr JUndefined) (\<lambda>cvssVector.
        bind_err (if typeof (viaInfo via) = ''object'' then get_prop env (viaInfo via) ''source''
                  else Inr JUndefined) (\<lambda>source.
        bind_err (if typeof (viaInfo via) = ''object'' then get_prop env (viaInfo via) ''url''
                  else Inr JUndefined) (\<lambda>url.
        bind_err (if typeof (viaInfo via) = ''object'' then get_prop env (viaInfo via) ''cwe''
                  else Inr JUndefined) (\<lambda>cwe.
        Inr (JObj
          [(''name'', JStr name),
           (''version'', js_or range (JStr ''unknown'')),
           (''vulnerability'', vulnerability),
           (''severity'', js_or severity (JStr ''unknown'')),
           (''recommendation'', recommend),
           (''cvssScore'', cvssScore),
           (''cvssVector'', cvssVector),
           (''source'', source),
           (''url'', url),
           (''cwe'', cwe)])))))))))))))"

text \<open>
  From the parsed output to the 200 response:
  \<^verbatim>\<open>res.status(200).json({ vulnerabilities, metadata: auditOutput.metadata })\<close>.
\<close>

definition audit_report :: "env \<Rightarrow> jsval \<Rightarrow> js_error + response" where
  "audit_report env auditOutput =
     bind_err (get_prop env auditOutput ''vulnerabilities'') (\<lambda>vs.
     bind_err (map_err (to_vulnerability env) (Object_entries (js_or vs (JObj [])))) (\<lambda>vulnerabilities.
     bind_err (get_prop env auditOutput ''metadata'') (\<lambda>metadata.
     Inr \<lparr>status = 200,
          json = JObj [(''vulnerabilities'', JArr vulnerabilities), (''metadata'', metadata)]\<rparr>)))"

text \<open>The responses shared by the variants.\<close>

definition method_not_allowed :: response where
  "method_not_allowed = \<lparr>status = 405, json = JObj [(''message'', JStr ''Method Not Allowed'')]\<rparr>"

definition lockfile_failed :: "string \<Rightarrow> response" where
  "lockfile_failed details =
     \<lparr>status = 500,
      json = JObj [(''error'', JStr ''Failed to create package-lock.json''),
                   (''details'', JStr details)]\<rparr>"

definition parse_failed :: "string \<Rightarrow> string \<Rightarrow> string \<Rightarrow> string \<Rightarrow> string \<Rightarrow> response" where
  "parse_failed details out_key out err_key err =
     \<lparr>status = 500,
      json = JObj [(''error'', JStr ''Failed to parse npm audit output''),
                   (''details'', JStr details),
                   (out_key, JStr out),
                   (err_key, JStr err)]\<rparr>"

definition audit_failed :: "js_error \<Rightarrow> response" where
  "audit_failed error =
     \<lparr>status = 500,
      json = JObj [(''error'', JStr ''Failed to perform npm audit''),
                   (''details'', JStr (message error)),
                   (''stack'', JStr (stack error))]\<rparr>"

subsection \<open>From the audit command to the response\<close>

text \<open>
  The three variants end with the same statements, from \<^verbatim>\<open>// Run npm audit\<close> to the 200
  response (lines 65 to 122, 165 to 220 and 270 to 328); they differ in the command line
  and in the names of the two variables that hold the output, which become the keys of the
  parse-failure response. Both the resolved and the rejected promise leave the captured
  output in the two variables; then the directory is removed and the output is parsed.
\<close>

definition run_audit ::
    "env \<Rightarrow> string \<Rightarrow> string \<Rightarrow> string \<Rightarrow> string \<Rightarrow> world \<Rightarrow> (js_error + response) \<times> world" where
  "run_audit env cmd out_key err_key tempDir w =
     (case execPromise env cmd tempDir w of
        (result, w1) \<Rightarrow>
          let stdout = exec_stdout result;
              stderr = exec_stderr result;
              w2 = rmSync tempDir w1
          in
          (case JSON_parse env stdout of
             Inl parseError \<Rightarrow>
               (Inr (parse_failed parseError out_key stdout err_key stderr), w2)
           | Inr auditOutput \<Rightarrow> (audit_report env auditOutput, w2)))"

subsection \<open>First variant (lines 10 to 131)\<close>

definition packageJsonContent :: "jsval \<Rightarrow> jsval" where
  "packageJsonContent dependencies =
     JObj [(''name'', JStr ''temp-package''),
           (''version'', JStr ''1.0.0''),
           (''dependencies'', dependencies)]"

text \<open>The body of the outer \<^verbatim>\<open>try\<close>: \<open>Inl\<close> is an exception on its way to the outer \<^verbatim>\<open>catch\<close>.\<close>

definition handler_try :: "env \<Rightarrow> request \<Rightarrow> world \<Rightarrow> (js_error + response) \<times> world" where
  "handler_try env req w =
     (case destructure env (req_body req) ''dependencies'' of
        Inl e \<Rightarrow> (Inl e, w)
      | Inr dependencies \<Rightarrow>
          if \<not> truthy dependencies \<or> typeof dependencies \<noteq> ''object'' then
            (Inr \<lparr>status = 400, json = JObj [(''error'', JStr ''Invalid dependencies format'')]\<rparr>, w)
          else
            (case mkdtempSync env (path_join (tmpdir env) ''npm-audit-'') w of
               (Inl e, w1) \<Rightarrow> (Inl e, w1)
             | (Inr tempDir, w1) \<Rightarrow>
                 let tempFile = path_join tempDir ''package.json'';
                     w2 = writeFileSync tempFile
                            (JSON_stringify env (packageJsonContent dependencies)) w1
                 in
                 (case readFileSync env tempFile w2 of
                    Inl e \<Rightarrow> (Inl e, w2)
                  | Inr shown \<Rightarrow>
                 (case execPromise env ''npm install --package-lock-only --ignore-scripts'' tempDir w2 of
                    (ExecErr msg out err, w3) \<Rightarrow> (Inr (lockfile_failed msg), w3)
                  | (ExecOk out err, w3) \<Rightarrow>
                 (case readFileSync env (path_join tempDir ''package-lock.json'') w3 of
                    Inl e \<Rightarrow> (Inr (lockfile_failed (message e)), w3)
                  | Inr lock \<Rightarrow>
                 (case execPromise env ''npm install --ignore-scripts'' tempDir w3 of
                    (installed, w4) \<Rightarrow>
                      run_audit env ''npm audit --json --omit=dev''
                        ''stdoutAudit'' ''stderrAudit'' tempDir w4))))))"

definition handler :: "env \<Rightarrow> request \<Rightarrow> world \<Rightarrow> response \<times> world" where
  "handler env req w =
     (if req_method req \<noteq> ''POST'' then (method_not_allowed, w)
      else
        (case handler_try env req w of
           (Inr res, w') \<Rightarrow> (res, w')
         | (Inl error, w') \<Rightarrow> (audit_failed error, w')))"


subsection \<open>Second variant (lines 141 to 229)\<close>

text \<open>
  No check of \<^verbatim>\<open>dependencies\<close>, the manifest is \<^verbatim>\<open>{ dependencies }\<close>, and the lockfile
  command is awaited outside any inner \<^verbatim>\<open>try\<close>: its rejection reaches the outer
  \<^verbatim>\<open>catch\<close>.
\<close>

definition handler_2_try :: "env \<Rightarrow> request \<Rightarrow> world \<Rightarrow> (js_error + response) \<times> world" where
  "handler_2_try env req w =
     (case destructure env (req_body req) ''dependencies'' of
        Inl e \<Rightarrow> (Inl e, w)
      | Inr dependencies \<Rightarrow>
          (case mkdtempSync env (path_join (tmpdir env) ''npm-audit-'') w of
             (Inl e, w1) \<Rightarrow> (Inl e, w1)
           | (Inr tempDir, w1) \<Rightarrow>
               let tempFile = path_join tempDir ''package.json'';
                   w2 = writeFileSync tempFile
                          (JSON_stringify env (JObj [(''dependencies'', dependencies)])) w1
               in
               (case execPromise env ''npm i --package-lock-only'' tempDir w2 of
                  (ExecErr msg out err, w3) \<Rightarrow> (Inl (js_throw env msg), w3)
                | (ExecOk out err, w3) \<Rightarrow>
                    run_audit env ''npm audit --json --omit=dev'' ''stdout'' ''stderr'' tempDir w3)))"

definition handler_2 :: "env \<Rightarrow> request \<Rightarrow> world \<Rightarrow> response \<times> world" where
  "handler_2 env req w =
     (if req_method req \<noteq> ''POST'' then (method_not_allowed, w)
      else
        (case handler_2_try env req w of
           (Inr res, w') \<Rightarrow> (res, w')
         | (Inl error, w') \<Rightarrow> (audit_failed error, w')))"

subsection \<open>Third variant (lines 238 to 337)\<close>

text \<open>
  No check of \<^verbatim>\<open>dependencies\<close>, the manifest is \<^verbatim>\<open>{ dependencies }\<close>, the commands go
  through \<^verbatim>\<open>npx\<close>, and a failure of the lockfile step is answered at once.
\<close>

definition handler_3_try :: "env \<Rightarrow> request \<Rightarrow> world \<Rightarrow> (js_error + response) \<times> world" where
  "handler_3_try env req w =
     (case destructure env (req_body req) ''dependencies'' of
        Inl e \<Rightarrow> (Inl e, w)
      | Inr dependencies \<Rightarrow>
          (case mkdtempSync env (path_join (tmpdir env) ''npm-audit-'') w of
             (Inl e, w1) \<Rightarrow> (Inl e, w1)
           | (Inr tempDir, w1) \<Rightarrow>
               let tempFile = path_join tempDir ''package.json'';
                   w2 = writeFileSync tempFile
                          (JSON_stringify env (JObj [(''dependencies'', dependencies)])) w1
               in
               (case readFileSync env tempFile w2 of
                  Inl e \<Rightarrow> (Inl e, w2)
                | Inr shown \<Rightarrow>
               (case execPromise env ''npx npm install --package-lock-only --offline'' tempDir w2 of
                  (ExecErr msg out err, w3) \<Rightarrow> (Inr (lockfile_failed msg), w3)
                | (ExecOk out err, w3) \<Rightarrow>
               (case readFileSync env (path_join tempDir ''package-lock.json'') w3 of
                  Inl e \<Rightarrow> (Inr (lockfile_failed (message e)), w3)
                | Inr lock \<Rightarrow>
                    run_audit env ''npx npm audit --json --omit=dev'' ''stdout'' ''stderr'' tempDir w3)))))"

definition handler_3 :: "env \<Rightarrow> request \<Rightarrow> world \<Rightarrow> response \<times> world" where
  "handler_3 env req w =
     (if req_method req \<noteq> ''POST'' then (method_not_allowed, w)
      else
        (case handler_3_try env req w of
           (Inr res, w') \<Rightarrow> (res, w')
         | (Inl error, w') \<Rightarrow> (audit_failed error, w')))"


section \<open>The dashboard's reports\<close>

text \<open>
  \<^verbatim>\<open>src/components/NpmAuditDashboard.tsx\<close>. The records are the TypeScript types
  \<^verbatim>\<open>AuditResult\<close> and \<^verbatim>\<open>AuditSummary\<close>; an optional property is an \<open>option\<close>, and the
  state \<^verbatim>\<open>auditResults\<close> (\<^verbatim>\<open>AuditResult[] | null\<close>) is a list option. The printing of
  numbers (\<^verbatim>\<open>toString\<close> away from zero, \<^verbatim>\<open>toFixed(1)\<close>) is a parameter.
\<close>

record AuditResult =
  name :: string
  version :: string
  vulnerability :: string
  severity :: string
  recommendation :: string
  cvssScore :: "rat option"
  cvssVector :: "string option"
  source :: "rat option"
  url :: "string option"
  cwe :: "string list option"

record AuditSummary =
  info :: rat
  low :: rat
  moderate :: rat
  high :: rat
  critical :: rat
  total :: rat

subsection \<open>The CVSS cell of the table (\<^verbatim>\<open>columns\<close>, lines 97 to 108)\<close>

datatype cell =
    CellText string
  | CellScore string "string option"

definition cvss_cell :: "(rat \<Rightarrow> string) \<Rightarrow> AuditResult \<Rightarrow> cell" where
  "cvss_cell toFixed1 result =
     (case cvssScore result of
        None \<Rightarrow> CellText ''N/A''
      | Some score \<Rightarrow>
          if score \<noteq> 0 then CellScore (toFixed1 score) (cvssVector result)
          else CellText ''N/A'')"

subsection \<open>\<^verbatim>\<open>generateMarkdownReport\<close> (lines 282 to 302)\<close>

text \<open>\<^verbatim>\<open>${auditSummary?.field || 0}\<close>.\<close>

definition summary_or_zero ::
    "(rat \<Rightarrow> string) \<Rightarrow> AuditSummary option \<Rightarrow> (AuditSummary \<Rightarrow> rat) \<Rightarrow> string" where
  "summary_or_zero fmt auditSummary field =
     number_toString fmt
       (case auditSummary of
          None \<Rightarrow> 0
        | Some s \<Rightarrow> if field s \<noteq> 0 then field s else 0)"

definition markdown_preamble :: "(rat \<Rightarrow> string) \<Rightarrow> AuditSummary option \<Rightarrow> string" where
  "markdown_preamble fmt auditSummary =
     ''# NPM Audit Report\<newline>\<newline>'' @
     ''## Vulnerability Summary\<newline>\<newline>'' @
     ''- Total: '' @ summary_or_zero fmt auditSummary total @ ''\<newline>'' @
     ''- Critical: '' @ summary_or_zero fmt auditSummary critical @ ''\<newline>'' @
     ''- High: '' @ summary_or_zero fmt auditSummary high @ ''\<newline>'' @
     ''- Moderate: '' @ summary_or_zero fmt auditSummary moderate @ ''\<newline>'' @
     ''- Low: '' @ summary_or_zero fmt auditSummary low @ ''\<newline>'' @
     ''- Info: '' @ summary_or_zero fmt auditSummary info @ ''\<newline>\<newline>'' @
     ''## Vulnerability Details\<newline>\<newline>'' @
     ''| Package | Version | Vulnerability | Severity | CVSS Score | Recommendation |\<newline>'' @
     ''|---------|---------|---------------|----------|------------|----------------|\<newline>''"

text \<open>The line appended for one record; \<^verbatim>\<open>${result.cvssScore || 'N/A'}\<close> in its fifth column.\<close>

definition markdown_row :: "(rat \<Rightarrow> string) \<Rightarrow> AuditResult \<Rightarrow> string" where
  "markdown_row fmt result =
     ''| '' @ name result @ '' | '' @ version result @ '' | '' @ vulnerability result @
     '' | '' @ severity result @ '' | '' @
     (case cvssScore result of
        None \<Rightarrow> ''N/A''
      | Some score \<Rightarrow> if score \<noteq> 0 then number_toString fmt score else ''N/A'') @
     '' | '' @ recommendation result @ '' |\<newline>''"

text \<open>\<^verbatim>\<open>auditResults?.forEach(result => { markdown += ... })\<close> is a left fold over the list.\<close>

definition generateMarkdownReport ::
    "(rat \<Rightarrow> string) \<Rightarrow> AuditSummary option \<Rightarrow> AuditResult list option \<Rightarrow> string" where
  "generateMarkdownReport fmt auditSummary auditResults =
     (case auditResults of
        None \<Rightarrow> markdown_preamble fmt auditSummary
      | Some results \<Rightarrow>
          foldl (\<lambda>markdown result. markdown @ markdown_row fmt result)
            (markdown_preamble fmt auditSummary) results)"

subsection \<open>\<^verbatim>\<open>generatePDFReport\<close> (lines 230 to 280)\<close>

text \<open>The calls made on the document, in order.\<close>

datatype pdf_op =
    SetFontSize nat
  | DrawText string rat rat
  | AutoTable rat "string list list" "string list list"
  | Save string

text \<open>\<^verbatim>\<open>auditSummary?.field?.toString() || '0'\<close>.\<close>

definition summary_cell ::
    "(rat \<Rightarrow> string) \<Rightarrow> AuditSummary option \<Rightarrow> (AuditSummary \<Rightarrow> rat) \<Rightarrow> string" where
  "summary_cell fmt auditSummary field =
     (case auditSummary of
        None \<Rightarrow> ''0''
      | Some s \<Rightarrow>
          if number_toString fmt (field s) \<noteq> [] then number_toString fmt (field s) else ''0'')"

definition summaryData :: "(rat \<Rightarrow> string) \<Rightarrow> AuditSummary option \<Rightarrow> string list list" where
  "summaryData fmt auditSummary =
     [[''Total'', summary_cell fmt auditSummary total],
      [''Critical'', summary_cell fmt auditSummary critical],
      [''High'', summary_cell fmt auditSummary high],
      [''Moderate'', summary_cell fmt auditSummary moderate],
      [''Low'', summary_cell fmt auditSummary low],
      [''Info'', summary_cell fmt auditSummary info]]"

text \<open>One row of \<^verbatim>\<open>tableData\<close>; \<^verbatim>\<open>result.cvssScore?.toString() || 'N/A'\<close> in its fifth column.\<close>

definition pdf_row :: "(rat \<Rightarrow> string) \<Rightarrow> AuditResult \<Rightarrow> string list" where
  "pdf_row fmt result =
     [name result,
      version result,
      vulnerability result,
      severity result,
      (case cvssScore result of
         None \<Rightarrow> ''N/A''
       | Some score \<Rightarrow>
           if number_toString fmt score \<noteq> [] then number_toString fmt score else ''N/A''),
      recommendation result]"

definition tableData :: "(rat \<Rightarrow> string) \<Rightarrow> AuditResult list option \<Rightarrow> string list list" where
  "tableData fmt auditResults =
     (case auditResults of None \<Rightarrow> [] | Some results \<Rightarrow> map (pdf_row fmt) results)"

text \<open>
  \<open>finalY\<close> is \<^verbatim>\<open>doc.lastAutoTable.finalY\<close>, where the library ended the summary table.
\<close>

definition generatePDFReport ::
    "(rat \<Rightarrow> string) \<Rightarrow> rat \<Rightarrow> AuditSummary option \<Rightarrow> AuditResult list option \<Rightarrow> pdf_op list" where
  "generatePDFReport fmt finalY auditSummary auditResults =
     [SetFontSize 20,
      DrawText ''NPM Audit Report'' 14 22,
      SetFontSize 16,
      DrawText ''Vulnerability Summary'' 14 32,
      AutoTable 38 [[''Severity'', ''Count'']] (summaryData fmt auditSummary),
      SetFontSize 16,
      DrawText ''Vulnerability Details'' 14 (finalY + 10),
      AutoTable (finalY + 16)
        [[''Package'', ''Version'', ''Vulnerability'', ''Severity'', ''CVSS Score'',
          ''Recommendation'']]
        (tableData fmt auditResults),
      Save ''npm-audit-report.pdf'']"

text \<open>The bodies of the tables drawn by a list of calls, in order.\<close>

fun table_bodies :: "pdf_op list \<Rightarrow> string list list list" where
  "table_bodies [] = []"
| "table_bodies (AutoTable y cols rows # ops) = rows # table_bodies ops"
| "table_bodies (c # ops) = table_bodies ops"


section \<open>A sample environment\<close>

text \<open>
  A concrete world for evaluating the endpoint: the temporary root is \<^verbatim>\<open>/tmp\<close>,
  \<^verbatim>\<open>mkdtempSync\<close> appends \<^verbatim>\<open>Ab12Cd\<close>, a lockfile command exits as \<open>lock\<close> says and
  leaves \<^verbatim>\<open>package-lock.json\<close> when it succeeds, an audit command exits as \<open>audit\<close>
  says, and any other command succeeds silently. \<^verbatim>\<open>JSON.parse\<close> knows three texts;
  \<^verbatim>\<open>JSON.stringify\<close> prints without indentation and without escapes, and drops the
  \<^verbatim>\<open>undefined\<close> properties of an object.
\<close>

fun sample_stringify :: "jsval \<Rightarrow> string" where
  "sample_stringify JUndefined = ''undefined''"
| "sample_stringify JNull = ''null''"
| "sample_stringify (JBool b) = (if b then ''true'' else ''false'')"
| "sample_stringify (JNum n) = number_toString (\<lambda>x. ''7.2'') n"
| "sample_stringify (JStr s) = [CHR 0x22] @ s @ [CHR 0x22]"
| "sample_stringify (JArr xs) =
     ''['' @ join_comma (map (\<lambda>x. if x = JUndefined then ''null'' else sample_stringify x) xs) @ '']''"
| "sample_stringify (JObj kvs) =
     ''{'' @ join_comma (map (\<lambda>kv. [CHR 0x22] @ fst kv @ [CHR 0x22] @ '':'' @ sample_stringify (snd kv))
                          (filter (\<lambda>kv. snd kv \<noteq> JUndefined) kvs)) @ ''}''"

text \<open>
  A finding in the shape \<^verbatim>\<open>npm audit --json\<close> prints: the package's own severity, range
  and fix, and the advisories in \<^verbatim>\<open>via\<close>, each with a severity of its own.
\<close>

definition sample_advisory :: "(string \<times> jsval) list" where
  "sample_advisory =
     [(''source'', JNum 1106913),
      (''title'', JStr ''Command Injection in lodash''),
      (''url'', JStr ''https://github.com/advisories/GHSA-35jh-r3h4-6jhm''),
      (''severity'', JStr ''low''),
      (''cwe'', JArr [JStr ''CWE-77'', JStr ''CWE-94'']),
      (''cvss'', JObj [(''score'', JNum (36 / 5)),
                       (''vectorString'', JStr ''CVSS:3.1/AV:N/AC:L/PR:H/UI:N/S:U/C:H/I:H/A:H'')])]"

definition sample_info :: "(string \<times> jsval) list" where
  "sample_info =
     [(''name'', JStr ''lodash''),
      (''severity'', JStr ''high''),
      (''via'', JArr [JObj sample_advisory, JStr ''another-package'']),
      (''range'', JStr ''<4.17.21''),
      (''fixAvailable'', JObj [(''name'', JStr ''lodash''), (''version'', JStr ''4.17.21'')])]"

definition sample_finding :: jsval where
  "sample_finding = JObj sample_info"

definition sample_metadata :: "rat \<Rightarrow> jsval" where
  "sample_metadata n =
     JObj [(''vulnerabilities'',
              JObj [(''info'', JNum 0), (''low'', JNum 0), (''moderate'', JNum 0),
                    (''high'', JNum n), (''critical'', JNum 0), (''total'', JNum n)])]"

definition sample_parse :: "string \<Rightarrow> string + jsval" where
  "sample_parse s =
     (if s = ''<one finding>'' then
        Inr (JObj [(''vulnerabilities'', JObj [(''lodash'', sample_finding)]),
                   (''metadata'', sample_metadata 1)])
      else if s = ''<no findings>'' then
        Inr (JObj [(''vulnerabilities'', JObj []), (''metadata'', sample_metadata 0)])
      else if s = ''null'' then Inr JNull
      else Inl ''Unexpected end of JSON input'')"

definition sample_spawn ::
    "exec_result \<Rightarrow> exec_result \<Rightarrow> string \<Rightarrow> string \<Rightarrow> world \<Rightarrow> exec_result \<times> world" where
  "sample_spawn lock audit cmd cwd w =
     (if cmd \<in> set [''npm install --package-lock-only --ignore-scripts'',
                      ''npm i --package-lock-only'',
                      ''npx npm install --package-lock-only --offline''] then
        (lock,
         case lock of
           ExecOk out err \<Rightarrow> w\<lparr>files := (path_join cwd ''package-lock.json'', ''{}'') # files w\<rparr>
         | ExecErr msg out err \<Rightarrow> w)
      else if cmd \<in> set [''npm audit --json --omit=dev'', ''npx npm audit --json --omit=dev''] then
        (audit, w)
      else (ExecOk [] [], w))"

definition sample_env :: "exec_result \<Rightarrow> exec_result \<Rightarrow> env" where
  "sample_env lock audit =
     \<lparr>tmpdir = ''/tmp'',
      mkdtemp = (\<lambda>pre w. Inr (pre @ ''Ab12Cd'')),
      spawn = sample_spawn lock audit,
      JSON_parse = sample_parse,
      JSON_stringify = sample_stringify,
      number_format = (\<lambda>x. ''7.2''),
      stack_of = (\<lambda>msg. ''Error: '' @ msg)\<rparr>"

definition sample_world :: world where
  "sample_world = \<lparr>dirs = [''/tmp''], files = [], trace = []\<rparr>"

definition sample_dependencies :: jsval where
  "sample_dependencies = JObj [(''lodash'', JStr ''4.17.20'')]"

definition post :: "jsval \<Rightarrow> request" where
  "post b = \<lparr>req_method = ''POST'', req_body = b\<rparr>"


section \<open>Vocabulary of the properties\<close>

text \<open>The effects of one request: what it appended to the trace.\<close>

definition effects :: "world \<Rightarrow> world \<Rightarrow> event list" where
  "effects w w' = drop (length (trace w)) (trace w')"

text \<open>The command lines of the child processes among some effects, in order.\<close>

fun commands :: "event list \<Rightarrow> string list" where
  "commands [] = []"
| "commands (Exec cmd cwd r # es) = cmd # commands es"
| "commands (e # es) = commands es"

text \<open>A property read that cannot throw: \<^verbatim>\<open>undefined\<close> where \<open>get_prop\<close> would throw.\<close>

fun peek :: "jsval \<Rightarrow> string \<Rightarrow> jsval" where
  "peek (JObj kvs) k = own_prop kvs k"
| "peek v k = JUndefined"

text \<open>
  The dashboard takes \<^verbatim>\<open>data.metadata?.vulnerabilities\<close> of the response as its summary;
  this is the summary's total.
\<close>

definition summary_total :: "jsval \<Rightarrow> jsval" where
  "summary_total data = peek (peek (peek data ''metadata'') ''vulnerabilities'') ''total''"

text \<open>
  The same environment, except that an audit command that exits with a non-zero status
  exits with status zero instead, with the same output and the same effect on the files.
\<close>

fun as_success :: "exec_result \<Rightarrow> exec_result" where
  "as_success (ExecErr msg out err) = ExecOk out err"
| "as_success (ExecOk out err) = ExecOk out err"

definition audit_exits_zero :: "env \<Rightarrow> env" where
  "audit_exits_zero env =
     env\<lparr>spawn := (\<lambda>cmd cwd w.
        if cmd = ''npm audit --json --omit=dev'' \<or> cmd = ''npx npm audit --json --omit=dev''
        then (as_success (fst (spawn env cmd cwd w)), snd (spawn env cmd cwd w))
        else spawn env cmd cwd w)\<rparr>"

text \<open>The three variants of the endpoint under one name, with what distinguishes them.\<close>

datatype variant = First | Second | Third

fun endpoint :: "variant \<Rightarrow> env \<Rightarrow> request \<Rightarrow> world \<Rightarrow> response \<times> world" where
  "endpoint First = handler"
| "endpoint Second = handler_2"
| "endpoint Third = handler_3"

fun audit_command :: "variant \<Rightarrow> string" where
  "audit_command First = ''npm audit --json --omit=dev''"
| "audit_command Second = ''npm audit --json --omit=dev''"
| "audit_command Third = ''npx npm audit --json --omit=dev''"

fun output_keys :: "variant \<Rightarrow> string \<times> string" where
  "output_keys First = (''stdoutAudit'', ''stderrAudit'')"
| "output_keys Second = (''stdout'', ''stderr'')"
| "output_keys Third = (''stdout'', ''stderr'')"

text \<open>The command lines of a request that goes through the whole pipeline.\<close>

fun invocations :: "variant \<Rightarrow> string list" where
  "invocations First =
     [''npm install --package-lock-only --ignore-scripts'',
      ''npm install --ignore-scripts'',
      ''npm audit --json --omit=dev'']"
| "invocations Second = [''npm i --package-lock-only'', ''npm audit --json --omit=dev'']"
| "invocations Third =
     [''npx npm install --package-lock-only --offline'', ''npx npm audit --json --omit=dev'']"

text \<open>Samples: a well-formed request and the exits of the child processes.\<close>

definition sample_request :: request where
  "sample_request = post (JObj [(''dependencies'', sample_dependencies)])"

definition exit_ok :: exec_result where
  "exit_ok = ExecOk [] []"

definition lock_fails :: exec_result where
  "lock_fails = ExecErr ''Command failed: npm install'' [] ''npm error code E404''"

definition audit_finds :: exec_result where
  "audit_finds = ExecErr ''Command failed: npm audit'' ''<one finding>'' []"

definition audit_clean :: exec_result where
  "audit_clean = ExecOk ''<no findings>'' []"

definition audit_garbled :: exec_result where
  "audit_garbled = ExecErr ''Command failed: npm audit'' ''npm error'' ''ENOTFOUND''"

text \<open>
  The lines of a text: the pieces between its line feeds; a text that ends with a line
  feed has no empty last line.
\<close>

fun split_lines :: "string \<Rightarrow> string list" where
  "split_lines [] = []"
| "split_lines (c # cs) =
     (if c = CHR 0x0A then [] # split_lines cs
      else (case split_lines cs of [] \<Rightarrow> [[c]] | l # ls \<Rightarrow> (c # l) # ls))"

definition single_line :: "string \<Rightarrow> bool" where
  "single_line s = (CHR 0x0A \<notin> set s)"

text \<open>Two records as the endpoint returns them, one with a score and one without.\<close>

definition sample_result :: AuditResult where
  "sample_result =
     \<lparr>name = ''lodash'', version = ''<4.17.21'',
      vulnerability = ''Command Injection in lodash'', severity = ''high'',
      recommendation = ''Upgrade lodash to version 4.17.21'',
      cvssScore = Some (36 / 5),
      cvssVector = Some ''CVSS:3.1/AV:N/AC:L/PR:H/UI:N/S:U/C:H/I:H/A:H'',
      source = Some 1106913,
      url = Some ''https://github.com/advisories/GHSA-35jh-r3h4-6jhm'',
      cwe = Some [''CWE-77'', ''CWE-94'']\<rparr>"

definition sample_result_2 :: AuditResult where
  "sample_result_2 =
     \<lparr>name = ''minimist'', version = ''<0.2.4'',
      vulnerability = ''mkdirp'', severity = ''unknown'',
      recommendation = ''No specific recommendation'',
      cvssScore = None, cvssVector = None, source = None, url = None, cwe = None\<rparr>"

text \<open>The lines of the preamble of the Markdown report.\<close>

definition markdown_header_lines :: "(rat \<Rightarrow> string) \<Rightarrow> AuditSummary option \<Rightarrow> string list" where
  "markdown_header_lines fmt auditSummary =
     [''# NPM Audit Report'',
      [],
      ''## Vulnerability Summary'',
      [],
      ''- Total: '' @ summary_or_zero fmt auditSummary total,
      ''- Critical: '' @ summary_or_zero fmt auditSummary critical,
      ''- High: '' @ summary_or_zero fmt auditSummary high,
      ''- Moderate: '' @ summary_or_zero fmt auditSummary moderate,
      ''- Low: '' @ summary_or_zero fmt auditSummary low,
      ''- Info: '' @ summary_or_zero fmt auditSummary info,
      [],
      ''## Vulnerability Details'',
      [],
      ''| Package | Version | Vulnerability | Severity | CVSS Score | Recommendation |'',
      ''|---------|---------|---------------|----------|------------|----------------|'']"

section \<open>Properties of the reports\<close>

lemma foldl_append_rows:
  "foldl (\<lambda>acc x. acc @ f x) start xs = start @ concat (map f xs)"
  by (induction xs arbitrary: start) simp_all

lemma split_lines_line:
  "single_line l \<Longrightarrow> split_lines (l @ CHR 0x0A # rest) = l # split_lines rest"
  by (induction l) (auto simp: single_line_def)

lemma split_lines_concat:
  "\<forall>l\<in>set ls. single_line l \<Longrightarrow> split_lines (concat (map (\<lambda>l. l @ [CHR 0x0A]) ls)) = ls"
  by (induction ls) (simp_all add: split_lines_line)

lemma single_line_append [simp]: "single_line (a @ b) = (single_line a \<and> single_line b)"
  by (auto simp: single_line_def)

lemma single_line_number:
  "\<forall>x. single_line (fmt x) \<Longrightarrow> single_line (number_toString fmt n)"
  by (simp add: number_toString_def single_line_def)

lemma single_line_summary:
  "\<forall>x. single_line (fmt x) \<Longrightarrow> single_line (summary_or_zero fmt auditSummary field)"
  by (simp add: summary_or_zero_def single_line_number)

lemma markdown_row_text:
  "markdown_row fmt =
     (\<lambda>r. (''| '' @ name r @ '' | '' @ version r @ '' | '' @ vulnerability r @ '' | '' @
            severity r @ '' | '' @
            (case cvssScore r of None \<Rightarrow> ''N/A'' | Some x \<Rightarrow> if x = 0 then ''N/A'' else fmt x) @
            '' | '' @ recommendation r @ '' |'') @ [CHR 0x0A])"
  by (rule ext) (simp add: markdown_row_def number_toString_def split: option.split)

lemma pdf_row_text:
  "pdf_row fmt =
     (\<lambda>r. [name r, version r, vulnerability r, severity r,
            (case cvssScore r of
               None \<Rightarrow> ''N/A''
             | Some x \<Rightarrow> if x = 0 then ''0'' else if fmt x = [] then ''N/A'' else fmt x),
            recommendation r])"
  by (rule ext) (simp add: pdf_row_def number_toString_def split: option.split)

lemma markdown_preamble_lines:
  "markdown_preamble fmt auditSummary =
     concat (map (\<lambda>l. l @ [CHR 0x0A]) (markdown_header_lines fmt auditSummary))"
  by (simp add: markdown_preamble_def markdown_header_lines_def)

lemma header_single: "\<forall>x. single_line (fmt x) \<Longrightarrow> \<forall>l\<in>set (markdown_header_lines fmt auditSummary). single_line l"
  by (auto simp: markdown_header_lines_def single_line_def summary_or_zero_def number_toString_def)

text \<open>
  Claim C9. A row of the Markdown report is the line appended for a record: its name,
  version, vulnerability, severity, score (or \<^verbatim>\<open>N/A\<close>) and recommendation between
  vertical bars. The report is its preamble followed by exactly these rows, one per record
  and in list order; when no text of a record holds a line feed, the lines of the report
  are the fifteen lines of the preamble followed by one line per record. A row of the PDF
  details table is the list of the same six cells of a record; the PDF draws two tables,
  the summary and the details, and the body of the details table is exactly these rows,
  one per record and in list order. With no result list (\<^verbatim>\<open>null\<close>) both have no row.
\<close>

theorem every_record_is_one_row_of_each_report:
  "generateMarkdownReport fmt auditSummary (Some results) =
     markdown_preamble fmt auditSummary @
     concat (map (\<lambda>r. ''| '' @ name r @ '' | '' @ version r @ '' | '' @ vulnerability r @
                        '' | '' @ severity r @ '' | '' @
                        (case cvssScore r of
                           None \<Rightarrow> ''N/A''
                         | Some x \<Rightarrow> if x = 0 then ''N/A'' else fmt x) @
                        '' | '' @ recommendation r @ '' |\<newline>'') results)
   \<and> generateMarkdownReport fmt auditSummary None = markdown_preamble fmt auditSummary
   \<and> ((\<forall>x. single_line (fmt x)) \<and>
       (\<forall>r\<in>set results. single_line (name r) \<and> single_line (version r) \<and>
          single_line (vulnerability r) \<and> single_line (severity r) \<and>
          single_line (recommendation r)) \<longrightarrow>
       split_lines (generateMarkdownReport fmt auditSummary (Some results)) =
         [''# NPM Audit Report'',
          [],
          ''## Vulnerability Summary'',
          [],
          ''- Total: '' @ summary_or_zero fmt auditSummary total,
          ''- Critical: '' @ summary_or_zero fmt auditSummary critical,
          ''- High: '' @ summary_or_zero fmt auditSummary high,
          ''- Moderate: '' @ summary_or_zero fmt auditSummary moderate,
          ''- Low: '' @ summary_or_zero fmt auditSummary low,
          ''- Info: '' @ summary_or_zero fmt auditSummary info,
          [],
          ''## Vulnerability Details'',
          [],
          ''| Package | Version | Vulnerability | Severity | CVSS Score | Recommendation |'',
          ''|---------|---------|---------------|----------|------------|----------------|''] @
         map (\<lambda>r. ''| '' @ name r @ '' | '' @ version r @ '' | '' @ vulnerability r @
                    '' | '' @ severity r @ '' | '' @
                    (case cvssScore r of
                       None \<Rightarrow> ''N/A''
                     | Some x \<Rightarrow> if x = 0 then ''N/A'' else fmt x) @
                    '' | '' @ recommendation r @ '' |'') results)
   \<and> table_bodies (generatePDFReport fmt finalY auditSummary (Some results)) =
       [summaryData fmt auditSummary,
        map (\<lambda>r. [name r, version r, vulnerability r, severity r,
                   (case cvssScore r of
                      None \<Rightarrow> ''N/A''
                    | Some x \<Rightarrow> if x = 0 then ''0'' else if fmt x = [] then ''N/A'' else fmt x),
                   recommendation r]) results]
   \<and> table_bodies (generatePDFReport fmt finalY auditSummary None) =
       [summaryData fmt auditSummary, []]"
proof (intro conjI impI)
  show "generateMarkdownReport fmt auditSummary (Some results) =
     markdown_preamble fmt auditSummary @
     concat (map (\<lambda>r. ''| '' @ name r @ '' | '' @ version r @ '' | '' @ vulnerability r @
                        '' | '' @ severity r @ '' | '' @
                        (case cvssScore r of
                           None \<Rightarrow> ''N/A''
                         | Some x \<Rightarrow> if x = 0 then ''N/A'' else fmt x) @
                        '' | '' @ recommendation r @ '' |\<newline>'') results)"
    by (simp add: generateMarkdownReport_def foldl_append_rows markdown_row_text)
next
  show "generateMarkdownReport fmt auditSummary None = markdown_preamble fmt auditSummary"
    by (simp add: generateMarkdownReport_def)
next
  let ?line = "\<lambda>r. ''| '' @ name r @ '' | '' @ version r @ '' | '' @ vulnerability r @
                    '' | '' @ severity r @ '' | '' @
                    (case cvssScore r of
                       None \<Rightarrow> ''N/A''
                     | Some x \<Rightarrow> if x = 0 then ''N/A'' else fmt x) @
                    '' | '' @ recommendation r @ '' |''"
  assume plain: "(\<forall>x. single_line (fmt x)) \<and>
       (\<forall>r\<in>set results. single_line (name r) \<and> single_line (version r) \<and>
          single_line (vulnerability r) \<and> single_line (severity r) \<and>
          single_line (recommendation r))"
  have report: "generateMarkdownReport fmt auditSummary (Some results) =
      concat (map (\<lambda>l. l @ [CHR 0x0A]) (markdown_header_lines fmt auditSummary @ map ?line results))"
    by (simp add: generateMarkdownReport_def foldl_append_rows markdown_row_text
        markdown_preamble_lines comp_def)
  have "\<forall>r\<in>set results. single_line (?line r)"
    using plain by (auto simp: single_line_def split: option.splits)
  with plain have "\<forall>l\<in>set (markdown_header_lines fmt auditSummary @ map ?line results). single_line l"
    using header_single [of fmt auditSummary] by auto
  then have "split_lines (generateMarkdownReport fmt auditSummary (Some results)) =
      markdown_header_lines fmt auditSummary @ map ?line results"
    unfolding report by (rule split_lines_concat)
  then show "split_lines (generateMarkdownReport fmt auditSummary (Some results)) =
         [''# NPM Audit Report'',
          [],
          ''## Vulnerability Summary'',
          [],
          ''- Total: '' @ summary_or_zero fmt auditSummary total,
          ''- Critical: '' @ summary_or_zero fmt auditSummary critical,
          ''- High: '' @ summary_or_zero fmt auditSummary high,
          ''- Moderate: '' @ summary_or_zero fmt auditSummary moderate,
          ''- Low: '' @ summary_or_zero fmt auditSummary low,
          ''- Info: '' @ summary_or_zero fmt auditSummary info,
          [],
          ''## Vulnerability Details'',
          [],
          ''| Package | Version | Vulnerability | Severity | CVSS Score | Recommendation |'',
          ''|---------|---------|---------------|----------|------------|----------------|''] @
         map ?line results"
    by (simp add: markdown_header_lines_def)
next
  show "table_bodies (generatePDFReport fmt finalY auditSummary (Some results)) =
       [summaryData fmt auditSummary,
        map (\<lambda>r. [name r, version r, vulnerability r, severity r,
                   (case cvssScore r of
                      None \<Rightarrow> ''N/A''
                    | Some x \<Rightarrow> if x = 0 then ''0'' else if fmt x = [] then ''N/A'' else fmt x),
                   recommendation r]) results]"
    by (simp add: generatePDFReport_def tableData_def pdf_row_text)
next
  show "table_bodies (generatePDFReport fmt finalY auditSummary None) =
       [summaryData fmt auditSummary, []]"
    by (simp add: generatePDFReport_def tableData_def)
qed

theorem every_record_is_one_row_of_each_report_witness:
  "split_lines (generateMarkdownReport (\<lambda>x. ''7.2'') None (Some [sample_result, sample_result_2])) =
     [''# NPM Audit Report'',
      [],
      ''## Vulnerability Summary'',
      [],
      ''- Total: 0'',
      ''- Critical: 0'',
      ''- High: 0'',
      ''- Moderate: 0'',
      ''- Low: 0'',
      ''- Info: 0'',
      [],
      ''## Vulnerability Details'',
      [],
      ''| Package | Version | Vulnerability | Severity | CVSS Score | Recommendation |'',
      ''|---------|---------|---------------|----------|------------|----------------|'',
      ''| lodash | <4.17.21 | Command Injection in lodash | high | 7.2 | Upgrade lodash to version 4.17.21 |'',
      ''| minimist | <0.2.4 | mkdirp | unknown | N/A | No specific recommendation |'']
   \<and> table_bodies
        (generatePDFReport (\<lambda>x. ''7.2'') 80 None (Some [sample_result, sample_result_2])) =
       [summaryData (\<lambda>x. ''7.2'') None,
        [[''lodash'', ''<4.17.21'', ''Command Injection in lodash'', ''high'', ''7.2'',
          ''Upgrade lodash to version 4.17.21''],
         [''minimist'', ''<0.2.4'', ''mkdirp'', ''unknown'', ''N/A'',
          ''No specific recommendation'']]]"
proof -
  have plain: "(\<forall>x. single_line ((\<lambda>x. ''7.2'') x)) \<and>
       (\<forall>r\<in>set [sample_result, sample_result_2]. single_line (name r) \<and> single_line (version r) \<and>
          single_line (vulnerability r) \<and> single_line (severity r) \<and>
          single_line (recommendation r))"
    by (simp add: single_line_def sample_result_def sample_result_2_def)
  note rows = every_record_is_one_row_of_each_report
         [of "\<lambda>x. ''7.2''" None "[sample_result, sample_result_2]" 80]
  note lines = rows [THEN conjunct2, THEN conjunct2, THEN conjunct1, rule_format, OF plain]
  note tables = rows [THEN conjunct2, THEN conjunct2, THEN conjunct2, THEN conjunct1]
  show ?thesis
    unfolding lines tables
    by (simp add: summary_or_zero_def number_toString_def sample_result_def sample_result_2_def)
qed

text \<open>
  Claim C10. A record whose CVSS score is exactly 0 has \<^verbatim>\<open>N/A\<close> in the fifth column of
  its Markdown line and in the CVSS cell of the table, and \<^verbatim>\<open>0\<close> in the fifth column of
  its row in the PDF details table.
\<close>

theorem zero_score_is_rendered_inconsistently:
  "markdown_row fmt (result\<lparr>cvssScore := Some 0\<rparr>) =
     ''| '' @ name result @ '' | '' @ version result @ '' | '' @ vulnerability result @
     '' | '' @ severity result @ '' | N/A | '' @ recommendation result @ '' |\<newline>''
   \<and> cvss_cell toFixed1 (result\<lparr>cvssScore := Some 0\<rparr>) = CellText ''N/A''
   \<and> pdf_row fmt (result\<lparr>cvssScore := Some 0\<rparr>) ! 4 = ''0''"
  by (simp add: markdown_row_def cvss_cell_def pdf_row_def number_toString_def)


section \<open>Facts about the primitives\<close>

lemma status_simps [simp]:
  "status method_not_allowed = 405"
  "status (lockfile_failed d) = 500"
  "status (parse_failed d k1 out k2 err) = 500"
  "status (audit_failed e) = 500"
  by (simp_all add: method_not_allowed_def lockfile_failed_def parse_failed_def audit_failed_def)

lemma audit_report_status: "audit_report env v = Inr res \<Longrightarrow> status res = 200"
  by (auto simp: audit_report_def bind_err_def split: sum.splits)

lemma trace_simps [simp]:
  "trace (writeFileSync p c w) = trace w @ [WriteFile p c]"
  "trace (rmSync d w) = trace w @ [RmSync d]"
  by (simp_all add: writeFileSync_def rmSync_def)

lemma execPromise_trace:
  "execPromise env cmd cwd w = (r, w') \<Longrightarrow> trace w' = trace w @ [Exec cmd cwd r]"
  by (auto simp: execPromise_def split: prod.splits)

lemma mkdtempSync_Inl: "mkdtempSync env pre w = (Inl e, w') \<Longrightarrow> w' = w"
  by (cases "mkdtemp env pre w") (auto simp: mkdtempSync_def)

lemma mkdtempSync_Inr:
  "mkdtempSync env pre w = (Inr d, w') \<Longrightarrow>
     mkdtemp env pre w = Inr d \<and> trace w' = trace w @ [Mkdtemp d] \<and> d \<in> set (dirs w')"
  by (cases "mkdtemp env pre w") (auto simp: mkdtempSync_def)

lemma rmSync_removes [simp]: "d \<notin> set (dirs (rmSync d w))"
  by (simp add: rmSync_def is_under_def)

lemma writeFileSync_dirs [simp]: "dirs (writeFileSync p c w) = dirs w"
  by (simp add: writeFileSync_def)

lemma effects_append [simp]: "effects w (w'\<lparr>trace := trace w @ es\<rparr>) = es"
  by (simp add: effects_def)

lemma effects_self [simp]: "effects w w = []"
  by (simp add: effects_def)

text \<open>
  The tail of every variant: the audit command runs, the directory is removed, and the
  response is decided by the parser on the captured standard output alone.
\<close>

lemma run_audit_outcome:
  assumes "run_audit env cmd out_key err_key d w = (x, w')"
  obtains r where
    "trace w' = trace w @ [Exec cmd d r, RmSync d]"
    "d \<notin> set (dirs w')"
    "x = (case JSON_parse env (exec_stdout r) of
            Inl msg \<Rightarrow> Inr (parse_failed msg out_key (exec_stdout r) err_key (exec_stderr r))
          | Inr auditOutput \<Rightarrow> audit_report env auditOutput)"
proof -
  obtain r w1 where run: "execPromise env cmd d w = (r, w1)"
    by (cases "execPromise env cmd d w")
  have "trace w1 = trace w @ [Exec cmd d r]"
    using run by (rule execPromise_trace)
  with assms run that [of r] show thesis
    by (auto simp: run_audit_def Let_def split: sum.splits)
qed

section \<open>Paths through the endpoint\<close>

lemma handler_after_audit:
  assumes "handler env req w = (res, w')"
    and "Exec ''npm audit --json --omit=dev'' d r \<in> set (effects w w')"
  shows "d \<notin> set (dirs w') \<and> last (effects w w') = RmSync d \<and>
     (case JSON_parse env (exec_stdout r) of
        Inl msg \<Rightarrow> res = parse_failed msg ''stdoutAudit'' (exec_stdout r) ''stderrAudit'' (exec_stderr r)
      | Inr v \<Rightarrow> (case audit_report env v of Inl e \<Rightarrow> res = audit_failed e | Inr rep \<Rightarrow> res = rep))"
  using assms
  apply (simp add: handler_def handler_try_def Let_def split: if_splits sum.splits prod.splits exec_result.splits)
  apply (auto simp: effects_def dest!: execPromise_trace mkdtempSync_Inl mkdtempSync_Inr elim!: run_audit_outcome split: sum.splits)
  done

lemma handler_2_after_audit:
  assumes "handler_2 env req w = (res, w')"
    and "Exec ''npm audit --json --omit=dev'' d r \<in> set (effects w w')"
  shows "d \<notin> set (dirs w') \<and> last (effects w w') = RmSync d \<and>
     (case JSON_parse env (exec_stdout r) of
        Inl msg \<Rightarrow> res = parse_failed msg ''stdout'' (exec_stdout r) ''stderr'' (exec_stderr r)
      | Inr v \<Rightarrow> (case audit_report env v of Inl e \<Rightarrow> res = audit_failed e | Inr rep \<Rightarrow> res = rep))"
  using assms
  apply (simp add: handler_2_def handler_2_try_def Let_def split: if_splits sum.splits prod.splits exec_result.splits)
  apply (auto simp: effects_def dest!: execPromise_trace mkdtempSync_Inl mkdtempSync_Inr elim!: run_audit_outcome split: sum.splits)
  done

lemma handler_3_after_audit:
  assumes "handler_3 env req w = (res, w')"
    and "Exec ''npx npm audit --json --omit=dev'' d r \<in> set (effects w w')"
  shows "d \<notin> set (dirs w') \<and> last (effects w w') = RmSync d \<and>
     (case JSON_parse env (exec_stdout r) of
        Inl msg \<Rightarrow> res = parse_failed msg ''stdout'' (exec_stdout r) ''stderr'' (exec_stderr r)
      | Inr v \<Rightarrow> (case audit_report env v of Inl e \<Rightarrow> res = audit_failed e | Inr rep \<Rightarrow> res = rep))"
  using assms
  apply (simp add: handler_3_def handler_3_try_def Let_def split: if_splits sum.splits prod.splits exec_result.splits)
  apply (auto simp: effects_def dest!: execPromise_trace mkdtempSync_Inl mkdtempSync_Inr elim!: run_audit_outcome split: sum.splits)
  done

text \<open>
  Once the audit command has run, in any variant: the directory is gone, removing it was
  the last effect, and the response is decided by the parser on the captured output.
\<close>

lemma endpoint_after_audit:
  assumes "endpoint v env req w = (res, w')"
    and "Exec (audit_command v) d r \<in> set (effects w w')"
  shows "d \<notin> set (dirs w') \<and> last (effects w w') = RmSync d \<and>
     (case JSON_parse env (exec_stdout r) of
        Inl msg \<Rightarrow> res = parse_failed msg (fst (output_keys v)) (exec_stdout r)
                           (snd (output_keys v)) (exec_stderr r)
      | Inr out \<Rightarrow> (case audit_report env out of Inl e \<Rightarrow> res = audit_failed e | Inr rep \<Rightarrow> res = rep))"
proof (cases v)
  case First
  from assms show ?thesis
    unfolding First using handler_after_audit [of env req w res w' d r]
    by (auto split: sum.splits)
next
  case Second
  from assms show ?thesis
    unfolding Second using handler_2_after_audit [of env req w res w' d r]
    by (auto split: sum.splits)
next
  case Third
  from assms show ?thesis
    unfolding Third using handler_3_after_audit [of env req w res w' d r]
    by (auto split: sum.splits)
qed

lemma handler_commands:
  "handler env req w = (res, w') \<Longrightarrow>
   commands (effects w w') \<in>
     {[], [''npm install --package-lock-only --ignore-scripts''], invocations First}
   \<and> (status res = 200 \<longrightarrow> commands (effects w w') = invocations First)"
  apply (simp add: handler_def handler_try_def Let_def split: if_splits sum.splits prod.splits exec_result.splits)
  apply (auto simp: effects_def dest!: execPromise_trace mkdtempSync_Inl mkdtempSync_Inr audit_report_status elim!: run_audit_outcome split: sum.splits)
  done

lemma handler_2_commands:
  "handler_2 env req w = (res, w') \<Longrightarrow>
   commands (effects w w') \<in> {[], [''npm i --package-lock-only''], invocations Second}
   \<and> (status res = 200 \<longrightarrow> commands (effects w w') = invocations Second)"
  apply (simp add: handler_2_def handler_2_try_def Let_def split: if_splits sum.splits prod.splits exec_result.splits)
  apply (auto simp: effects_def dest!: execPromise_trace mkdtempSync_Inl mkdtempSync_Inr audit_report_status elim!: run_audit_outcome split: sum.splits)
  done

lemma handler_3_commands:
  "handler_3 env req w = (res, w') \<Longrightarrow>
   commands (effects w w') \<in>
     {[], [''npx npm install --package-lock-only --offline''], invocations Third}
   \<and> (status res = 200 \<longrightarrow> commands (effects w w') = invocations Third)"
  apply (simp add: handler_3_def handler_3_try_def Let_def split: if_splits sum.splits prod.splits exec_result.splits)
  apply (auto simp: effects_def dest!: execPromise_trace mkdtempSync_Inl mkdtempSync_Inr audit_report_status elim!: run_audit_outcome split: sum.splits)
  done

lemma endpoint_commands:
  assumes "endpoint v env req w = (res, w')"
  shows "commands (effects w w') \<in> {[], [hd (invocations v)], invocations v}"
    and "status res = 200 \<Longrightarrow> commands (effects w w') = invocations v"
    and "audit_command v \<in> set (commands (effects w w')) \<Longrightarrow> commands (effects w w') = invocations v"
proof -
  have both: "commands (effects w w') \<in> {[], [hd (invocations v)], invocations v}
      \<and> (status res = 200 \<longrightarrow> commands (effects w w') = invocations v)"
  proof (cases v)
    case First
    with assms show ?thesis using handler_commands [of env req w res w'] by simp
  next
    case Second
    with assms show ?thesis using handler_2_commands [of env req w res w'] by simp
  next
    case Third
    with assms show ?thesis using handler_3_commands [of env req w res w'] by simp
  qed
  show "commands (effects w w') \<in> {[], [hd (invocations v)], invocations v}"
    using both by simp
  show "status res = 200 \<Longrightarrow> commands (effects w w') = invocations v"
    using both by simp
  show "audit_command v \<in> set (commands (effects w w')) \<Longrightarrow> commands (effects w w') = invocations v"
    using both by (cases v) auto
qed

section \<open>Properties of the endpoint\<close>

text \<open>
  Claim C1, at a request whose lockfile command fails. All three variants answer 500 and
  leave the temporary directory and the manifest in it behind: the first and the third
  return from inside the \<^verbatim>\<open>catch\<close> of the lockfile step, the second lets the rejection
  reach the outer \<^verbatim>\<open>catch\<close>, and neither place calls \<^verbatim>\<open>fs.rmSync\<close>.
\<close>

theorem lockfile_failure_leaves_directory:
  "status (fst (endpoint First (sample_env lock_fails exit_ok) sample_request sample_world)) = 500
   \<and> ''/tmp/npm-audit-Ab12Cd'' \<in>
       set (dirs (snd (endpoint First (sample_env lock_fails exit_ok) sample_request sample_world)))
   \<and> status (fst (endpoint Second (sample_env lock_fails exit_ok) sample_request sample_world)) = 500
   \<and> ''/tmp/npm-audit-Ab12Cd'' \<in>
       set (dirs (snd (endpoint Second (sample_env lock_fails exit_ok) sample_request sample_world)))
   \<and> status (fst (endpoint Third (sample_env lock_fails exit_ok) sample_request sample_world)) = 500
   \<and> ''/tmp/npm-audit-Ab12Cd'' \<in>
       set (dirs (snd (endpoint Third (sample_env lock_fails exit_ok) sample_request sample_world)))
   \<and> effects sample_world
        (snd (endpoint First (sample_env lock_fails exit_ok) sample_request sample_world)) =
       [Mkdtemp ''/tmp/npm-audit-Ab12Cd'',
        WriteFile ''/tmp/npm-audit-Ab12Cd/package.json''
          (sample_stringify (packageJsonContent sample_dependencies)),
        Exec ''npm install --package-lock-only --ignore-scripts'' ''/tmp/npm-audit-Ab12Cd''
          lock_fails]"
  by code_simp

text \<open>
  What does hold of the cleanup: in every variant, a request whose audit command was run
  ends with the removal of the directory, whatever the exit of the audit and whatever the
  parser says.
\<close>

lemma cleanup_after_audit:
  "endpoint v env req w = (res, w') \<Longrightarrow> Exec (audit_command v) d r \<in> set (effects w w') \<Longrightarrow>
     d \<notin> set (dirs w') \<and> last (effects w w') = RmSync d"
  using endpoint_after_audit [of v env req w res w' d r] by simp

text \<open>
  Claim C4, as amended. A request answered with status 200, or any request whose audit
  command was run, has run exactly the command lines of its variant, in order: the
  lockfile-only resolution, in the first variant a full \<^verbatim>\<open>npm install --ignore-scripts\<close>,
  and the audit. So the first variant invokes the package manager three times, the second
  and the third twice.
\<close>

theorem completed_pipeline_invocations:
  "endpoint v env req w = (res, w') \<Longrightarrow>
   status res = 200 \<or> audit_command v \<in> set (commands (effects w w')) \<Longrightarrow>
   commands (effects w w') = invocations v"
  using endpoint_commands(2,3) [of v env req w res w'] by blast

theorem completed_pipeline_invocations_witness:
  "endpoint First (sample_env exit_ok audit_finds) sample_request sample_world =
     (fst (endpoint First (sample_env exit_ok audit_finds) sample_request sample_world),
      snd (endpoint First (sample_env exit_ok audit_finds) sample_request sample_world))
   \<and> status (fst (endpoint First (sample_env exit_ok audit_finds) sample_request sample_world)) = 200
   \<and> commands (effects sample_world
        (snd (endpoint First (sample_env exit_ok audit_finds) sample_request sample_world))) =
       [''npm install --package-lock-only --ignore-scripts'',
        ''npm install --ignore-scripts'',
        ''npm audit --json --omit=dev'']"
proof -
  have ok: "status (fst (endpoint First (sample_env exit_ok audit_finds) sample_request sample_world)) = 200"
    by code_simp
  show ?thesis
    using ok completed_pipeline_invocations [of First "sample_env exit_ok audit_finds"
        sample_request sample_world
        "fst (endpoint First (sample_env exit_ok audit_finds) sample_request sample_world)"
        "snd (endpoint First (sample_env exit_ok audit_finds) sample_request sample_world)"]
    by simp
qed

text \<open>
  Claim C4 as stated fails in the first variant: a request that completes the pipeline
  with status 200 has invoked the package manager three times, the second time between
  the lockfile resolution and the audit.
\<close>

theorem first_variant_invokes_three_times:
  "status (fst (handler (sample_env exit_ok audit_finds) sample_request sample_world)) = 200
   \<and> commands (effects sample_world
        (snd (handler (sample_env exit_ok audit_finds) sample_request sample_world))) =
       [''npm install --package-lock-only --ignore-scripts'',
        ''npm install --ignore-scripts'',
        ''npm audit --json --omit=dev'']
   \<and> length (commands (effects sample_world
        (snd (handler (sample_env exit_ok audit_finds) sample_request sample_world)))) = 3"
  by code_simp

text \<open>
  Claim C2, at requests without a dependency mapping. The second and the third variant
  do not look at \<^verbatim>\<open>dependencies\<close>: a body \<^verbatim>\<open>{}\<close> gets a directory, a manifest and both
  commands, and is answered 200. The first variant checks \<^verbatim>\<open>dependencies\<close> but destructures
  the body first: a body \<^verbatim>\<open>null\<close> throws there and is answered 500. Its check lets an
  array through, whose \<^verbatim>\<open>typeof\<close> is \<^verbatim>\<open>object\<close>.
\<close>

theorem missing_dependencies_are_not_rejected:
  "status (fst (handler_2 (sample_env exit_ok audit_clean) (post (JObj [])) sample_world)) = 200
   \<and> effects sample_world
        (snd (handler_2 (sample_env exit_ok audit_clean) (post (JObj [])) sample_world)) =
       [Mkdtemp ''/tmp/npm-audit-Ab12Cd'',
        WriteFile ''/tmp/npm-audit-Ab12Cd/package.json'' ''{}'',
        Exec ''npm i --package-lock-only'' ''/tmp/npm-audit-Ab12Cd'' exit_ok,
        Exec ''npm audit --json --omit=dev'' ''/tmp/npm-audit-Ab12Cd'' audit_clean,
        RmSync ''/tmp/npm-audit-Ab12Cd'']
   \<and> status (fst (handler_3 (sample_env exit_ok audit_clean) (post (JObj [])) sample_world)) = 200
   \<and> effects sample_world
        (snd (handler_3 (sample_env exit_ok audit_clean) (post (JObj [])) sample_world)) =
       [Mkdtemp ''/tmp/npm-audit-Ab12Cd'',
        WriteFile ''/tmp/npm-audit-Ab12Cd/package.json'' ''{}'',
        Exec ''npx npm install --package-lock-only --offline'' ''/tmp/npm-audit-Ab12Cd'' exit_ok,
        Exec ''npx npm audit --json --omit=dev'' ''/tmp/npm-audit-Ab12Cd'' audit_clean,
        RmSync ''/tmp/npm-audit-Ab12Cd'']
   \<and> status (fst (handler (sample_env exit_ok audit_clean) (post JNull) sample_world)) = 500
   \<and> status (fst (handler (sample_env exit_ok audit_clean)
                  (post (JObj [(''dependencies'', JArr [])])) sample_world)) = 200"
  by code_simp

text \<open>
  What the check of the first variant does: a POST request whose body is not \<^verbatim>\<open>null\<close> or
  \<^verbatim>\<open>undefined\<close> and whose \<^verbatim>\<open>dependencies\<close> is missing, falsy or not of type object is
  answered 400 and has no effect at all.
\<close>

lemma handler_rejects_invalid_dependencies:
  assumes "req_method req = ''POST''"
    and "req_body req \<noteq> JNull" and "req_body req \<noteq> JUndefined"
    and "\<not> truthy (peek (req_body req) ''dependencies'')
         \<or> typeof (peek (req_body req) ''dependencies'') \<noteq> ''object''"
  shows "handler env req w =
     (\<lparr>status = 400, json = JObj [(''error'', JStr ''Invalid dependencies format'')]\<rparr>, w)"
proof -
  have "destructure env (req_body req) ''dependencies'' = Inr (peek (req_body req) ''dependencies'')"
    using assms(2,3) by (cases "req_body req") (simp_all add: destructure_def)
  with assms(1,4) show ?thesis
    by (auto simp: handler_def handler_try_def)
qed

text \<open>
  Claim C3, at a well-formed request. The second and the third variant write the manifest
  \<^verbatim>\<open>{ dependencies }\<close>, without a name and without a version; it is not the manifest of the
  first variant.
\<close>

theorem manifest_without_name_and_version:
  "take 2 (effects sample_world
        (snd (handler_2 (sample_env exit_ok audit_clean) sample_request sample_world))) =
       [Mkdtemp ''/tmp/npm-audit-Ab12Cd'',
        WriteFile ''/tmp/npm-audit-Ab12Cd/package.json''
          (sample_stringify (JObj [(''dependencies'', sample_dependencies)]))]
   \<and> take 2 (effects sample_world
        (snd (handler_3 (sample_env exit_ok audit_clean) sample_request sample_world))) =
       [Mkdtemp ''/tmp/npm-audit-Ab12Cd'',
        WriteFile ''/tmp/npm-audit-Ab12Cd/package.json''
          (sample_stringify (JObj [(''dependencies'', sample_dependencies)]))]
   \<and> sample_stringify (JObj [(''dependencies'', sample_dependencies)]) \<noteq>
       sample_stringify (packageJsonContent sample_dependencies)"
  by code_simp

text \<open>
  What the first variant writes: for every POST request that passes its check and gets a
  directory \<open>d\<close>, the first two effects are the creation of \<open>d\<close> and the writing of
  \<^verbatim>\<open>package.json\<close> in \<open>d\<close>, whose text is the serialisation of the object with the name
  \<^verbatim>\<open>temp-package\<close>, the version \<^verbatim>\<open>1.0.0\<close> and the supplied \<^verbatim>\<open>dependencies\<close> unchanged.
\<close>

lemma handler_writes_manifest:
  assumes "req_method req = ''POST''"
    and "req_body req = JObj props"
    and "truthy (own_prop props ''dependencies'')"
    and "typeof (own_prop props ''dependencies'') = ''object''"
    and "mkdtemp env (path_join (tmpdir env) ''npm-audit-'') w = Inr d"
  shows "take 2 (effects w (snd (handler env req w))) =
     [Mkdtemp d,
      WriteFile (path_join d ''package.json'')
        (JSON_stringify env
           (JObj [(''name'', JStr ''temp-package''),
                  (''version'', JStr ''1.0.0''),
                  (''dependencies'', own_prop props ''dependencies'')]))]"
proof -
  obtain res w' where h: "handler env req w = (res, w')"
    by (cases "handler env req w")
  have "take 2 (effects w w') =
     [Mkdtemp d,
      WriteFile (path_join d ''package.json'')
        (JSON_stringify env (packageJsonContent (own_prop props ''dependencies'')))]"
    using h assms
    apply (simp add: handler_def handler_try_def Let_def destructure_def mkdtempSync_def
        split: if_splits sum.splits prod.splits exec_result.splits)
    apply (auto simp: effects_def dest!: execPromise_trace elim!: run_audit_outcome)
    done
  then show ?thesis
    by (simp add: h packageJsonContent_def)
qed



section \<open>The faulty paths, in general\<close>

text \<open>
  The three evaluations above are not accidents of the sample world. In every variant and
  every world, a request whose lockfile command fails is answered 500 without any removal
  of its directory.
\<close>

lemma handler_lockfile_failure:
  assumes "handler env req w = (res, w')"
    and "Exec ''npm install --package-lock-only --ignore-scripts'' d (ExecErr msg out err) \<in> set (effects w w')"
  shows "RmSync d \<notin> set (effects w w') \<and> res = lockfile_failed msg"
  using assms
  apply (simp add: handler_def handler_try_def Let_def split: if_splits sum.splits prod.splits exec_result.splits)
  apply (auto simp: effects_def dest!: execPromise_trace mkdtempSync_Inl mkdtempSync_Inr elim!: run_audit_outcome split: sum.splits)
  done

lemma handler_2_lockfile_failure:
  assumes "handler_2 env req w = (res, w')"
    and "Exec ''npm i --package-lock-only'' d (ExecErr msg out err) \<in> set (effects w w')"
  shows "RmSync d \<notin> set (effects w w') \<and> res = audit_failed (js_throw env msg)"
  using assms
  apply (simp add: handler_2_def handler_2_try_def Let_def split: if_splits sum.splits prod.splits exec_result.splits)
  apply (auto simp: effects_def dest!: execPromise_trace mkdtempSync_Inl mkdtempSync_Inr elim!: run_audit_outcome split: sum.splits)
  done

lemma handler_3_lockfile_failure:
  assumes "handler_3 env req w = (res, w')"
    and "Exec ''npx npm install --package-lock-only --offline'' d (ExecErr msg out err) \<in> set (effects w w')"
  shows "RmSync d \<notin> set (effects w w') \<and> res = lockfile_failed msg"
  using assms
  apply (simp add: handler_3_def handler_3_try_def Let_def split: if_splits sum.splits prod.splits exec_result.splits)
  apply (auto simp: effects_def dest!: execPromise_trace mkdtempSync_Inl mkdtempSync_Inr elim!: run_audit_outcome split: sum.splits)
  done

lemma no_cleanup_after_lockfile_failure:
  assumes "endpoint v env req w = (res, w')"
    and "Exec (hd (invocations v)) d (ExecErr msg out err) \<in> set (effects w w')"
  shows "RmSync d \<notin> set (effects w w') \<and> status res = 500"
proof (cases v)
  case First
  from assms show ?thesis
    unfolding First using handler_lockfile_failure [of env req w res w' d msg out err] by simp
next
  case Second
  from assms show ?thesis
    unfolding Second using handler_2_lockfile_failure [of env req w res w' d msg out err] by simp
next
  case Third
  from assms show ?thesis
    unfolding Third using handler_3_lockfile_failure [of env req w res w' d msg out err] by simp
qed

text \<open>The second and the third variant answer no request with status 400.\<close>

lemma handler_2_never_answers_400: "status (fst (handler_2 env req w)) \<noteq> 400"
  by (auto simp: handler_2_def handler_2_try_def Let_def
      split: sum.splits prod.splits exec_result.splits
      dest!: audit_report_status audit_report_status [OF sym] elim!: run_audit_outcome)

lemma handler_3_never_answers_400: "status (fst (handler_3 env req w)) \<noteq> 400"
  by (auto simp: handler_3_def handler_3_try_def Let_def
      split: sum.splits prod.splits exec_result.splits
      dest!: audit_report_status audit_report_status [OF sym] elim!: run_audit_outcome)

text \<open>
  The second and the third variant write the manifest \<^verbatim>\<open>{ dependencies }\<close> for every POST
  request whose body is an object, whatever its \<^verbatim>\<open>dependencies\<close> is.
\<close>

lemma handler_2_writes_manifest:
  assumes "req_method req = ''POST''"
    and "req_body req = JObj props"
    and "mkdtemp env (path_join (tmpdir env) ''npm-audit-'') w = Inr d"
  shows "take 2 (effects w (snd (handler_2 env req w))) =
     [Mkdtemp d,
      WriteFile (path_join d ''package.json'')
        (JSON_stringify env (JObj [(''dependencies'', own_prop props ''dependencies'')]))]"
proof -
  obtain res w' where h: "handler_2 env req w = (res, w')"
    by (cases "handler_2 env req w")
  have "take 2 (effects w w') =
     [Mkdtemp d,
      WriteFile (path_join d ''package.json'')
        (JSON_stringify env (JObj [(''dependencies'', own_prop props ''dependencies'')]))]"
    using h assms
    apply (simp add: handler_2_def handler_2_try_def Let_def destructure_def mkdtempSync_def
        split: if_splits sum.splits prod.splits exec_result.splits)
    apply (auto simp: effects_def dest!: execPromise_trace elim!: run_audit_outcome)
    done
  then show ?thesis
    by (simp add: h)
qed

lemma handler_3_writes_manifest:
  assumes "req_method req = ''POST''"
    and "req_body req = JObj props"
    and "mkdtemp env (path_join (tmpdir env) ''npm-audit-'') w = Inr d"
  shows "take 2 (effects w (snd (handler_3 env req w))) =
     [Mkdtemp d,
      WriteFile (path_join d ''package.json'')
        (JSON_stringify env (JObj [(''dependencies'', own_prop props ''dependencies'')]))]"
proof -
  obtain res w' where h: "handler_3 env req w = (res, w')"
    by (cases "handler_3 env req w")
  have "take 2 (effects w w') =
     [Mkdtemp d,
      WriteFile (path_join d ''package.json'')
        (JSON_stringify env (JObj [(''dependencies'', own_prop props ''dependencies'')]))]"
    using h assms
    apply (simp add: handler_3_def handler_3_try_def Let_def destructure_def mkdtempSync_def
        split: if_splits sum.splits prod.splits exec_result.splits)
    apply (auto simp: effects_def dest!: execPromise_trace elim!: run_audit_outcome)
    done
  then show ?thesis
    by (simp add: h)
qed

section \<open>The exit status of the audit\<close>

lemma as_success_output [simp]:
  "exec_stdout (as_success r) = exec_stdout r"
  "exec_stderr (as_success r) = exec_stderr r"
  by (cases r; simp)+

lemma exits_zero_fields [simp]:
  "tmpdir (audit_exits_zero env) = tmpdir env"
  "mkdtemp (audit_exits_zero env) = mkdtemp env"
  "JSON_parse (audit_exits_zero env) = JSON_parse env"
  "JSON_stringify (audit_exits_zero env) = JSON_stringify env"
  "number_format (audit_exits_zero env) = number_format env"
  "stack_of (audit_exits_zero env) = stack_of env"
  by (simp_all add: audit_exits_zero_def)

lemma exits_zero_js_throw [simp]: "js_throw (audit_exits_zero env) = js_throw env"
  by (rule ext) (simp add: js_throw_def)

lemma exits_zero_get_prop [simp]: "get_prop (audit_exits_zero env) = get_prop env"
proof (intro ext)
  fix v k
  show "get_prop (audit_exits_zero env) v k = get_prop env v k"
    by (cases v) simp_all
qed

lemma exits_zero_pure [simp]:
  "destructure (audit_exits_zero env) = destructure env"
  "get_opt_chain (audit_exits_zero env) = get_opt_chain env"
  "recommendation_text (audit_exits_zero env) = recommendation_text env"
  "readFileSync (audit_exits_zero env) = readFileSync env"
  "mkdtempSync (audit_exits_zero env) = mkdtempSync env"
  by (intro ext, simp add: destructure_def get_opt_chain_def recommendation_text_def
        readFileSync_def mkdtempSync_def cong: if_cong option.case_cong)+

lemma exits_zero_to_vulnerability [simp]:
  "to_vulnerability (audit_exits_zero env) = to_vulnerability env"
  by (rule ext) (simp add: to_vulnerability_def cong: if_cong)

lemma exits_zero_audit_report [simp]:
  "audit_report (audit_exits_zero env) = audit_report env"
  by (rule ext) (simp add: audit_report_def)

lemma exits_zero_other_command:
  "cmd \<noteq> ''npm audit --json --omit=dev'' \<Longrightarrow> cmd \<noteq> ''npx npm audit --json --omit=dev'' \<Longrightarrow>
     execPromise (audit_exits_zero env) cmd cwd w = execPromise env cmd cwd w"
  by (simp add: execPromise_def audit_exits_zero_def)

text \<open>
  With the exit of the audit turned into a success, the tail of the endpoint gives the same
  response and the same files; only the recorded exit differs.
\<close>

lemma run_audit_exits_zero:
  assumes "cmd = ''npm audit --json --omit=dev'' \<or> cmd = ''npx npm audit --json --omit=dev''"
  shows "fst (run_audit (audit_exits_zero env) cmd k1 k2 d w) = fst (run_audit env cmd k1 k2 d w)
     \<and> dirs (snd (run_audit (audit_exits_zero env) cmd k1 k2 d w)) =
         dirs (snd (run_audit env cmd k1 k2 d w))
     \<and> files (snd (run_audit (audit_exits_zero env) cmd k1 k2 d w)) =
         files (snd (run_audit env cmd k1 k2 d w))"
proof -
  obtain r w1 where sp: "spawn env cmd d w = (r, w1)"
    by (cases "spawn env cmd d w")
  have sp': "spawn (audit_exits_zero env) cmd d w = (as_success r, w1)"
    using assms sp by (auto simp: audit_exits_zero_def)
  show ?thesis
    by (simp add: run_audit_def execPromise_def sp sp' Let_def rmSync_def split: sum.split)
qed

lemma finish_fst:
  "fst (case x of (Inr res, w') \<Rightarrow> (res, w') | (Inl e, w') \<Rightarrow> (audit_failed e, w')) =
     (case fst x of Inr res \<Rightarrow> res | Inl e \<Rightarrow> audit_failed e)"
  by (cases x) (simp split: sum.split)

lemma finish_snd:
  "snd (case x of (Inr res, w') \<Rightarrow> (res, w') | (Inl e, w') \<Rightarrow> (audit_failed e, w')) = snd x"
  by (cases x) (simp split: sum.split)

lemma handler_try_exits_zero:
  "fst (handler_try (audit_exits_zero env) req w) = fst (handler_try env req w)
   \<and> dirs (snd (handler_try (audit_exits_zero env) req w)) = dirs (snd (handler_try env req w))
   \<and> files (snd (handler_try (audit_exits_zero env) req w)) = files (snd (handler_try env req w))"
  by (simp add: handler_try_def Let_def exits_zero_other_command run_audit_exits_zero
      split: sum.split prod.split exec_result.split)

lemma handler_2_try_exits_zero:
  "fst (handler_2_try (audit_exits_zero env) req w) = fst (handler_2_try env req w)
   \<and> dirs (snd (handler_2_try (audit_exits_zero env) req w)) = dirs (snd (handler_2_try env req w))
   \<and> files (snd (handler_2_try (audit_exits_zero env) req w)) = files (snd (handler_2_try env req w))"
  by (simp add: handler_2_try_def Let_def exits_zero_other_command run_audit_exits_zero
      split: sum.split prod.split exec_result.split)

lemma handler_3_try_exits_zero:
  "fst (handler_3_try (audit_exits_zero env) req w) = fst (handler_3_try env req w)
   \<and> dirs (snd (handler_3_try (audit_exits_zero env) req w)) = dirs (snd (handler_3_try env req w))
   \<and> files (snd (handler_3_try (audit_exits_zero env) req w)) = files (snd (handler_3_try env req w))"
  by (simp add: handler_3_try_def Let_def exits_zero_other_command run_audit_exits_zero
      split: sum.split prod.split exec_result.split)

text \<open>
  In every variant, for every request and every world: were the audit command to exit
  with status zero instead of a non-zero status, with the same captured output, the
  response and the files left behind would be the same.
\<close>

lemma exit_status_of_audit_is_irrelevant:
  "fst (endpoint v (audit_exits_zero env) req w) = fst (endpoint v env req w)
   \<and> dirs (snd (endpoint v (audit_exits_zero env) req w)) = dirs (snd (endpoint v env req w))
   \<and> files (snd (endpoint v (audit_exits_zero env) req w)) = files (snd (endpoint v env req w))"
proof (cases v)
  case First
  show ?thesis
    unfolding First using handler_try_exits_zero [of env req w]
    by (simp add: handler_def finish_fst finish_snd)
next
  case Second
  show ?thesis
    unfolding Second using handler_2_try_exits_zero [of env req w]
    by (simp add: handler_2_def finish_fst finish_snd)
next
  case Third
  show ?thesis
    unfolding Third using handler_3_try_exits_zero [of env req w]
    by (simp add: handler_3_def finish_fst finish_snd)
qed

lemma exit_status_of_audit_is_irrelevant_example:
  "fst (endpoint First (audit_exits_zero (sample_env exit_ok audit_finds)) sample_request sample_world) =
     fst (endpoint First (sample_env exit_ok audit_finds) sample_request sample_world)
   \<and> status (fst (endpoint First (sample_env exit_ok audit_finds) sample_request sample_world)) = 200
   \<and> last (effects sample_world
        (snd (endpoint First (sample_env exit_ok audit_finds) sample_request sample_world))) =
       RmSync ''/tmp/npm-audit-Ab12Cd''"
proof -
  have "status (fst (endpoint First (sample_env exit_ok audit_finds) sample_request sample_world)) = 200
    \<and> last (effects sample_world
        (snd (endpoint First (sample_env exit_ok audit_finds) sample_request sample_world))) =
       RmSync ''/tmp/npm-audit-Ab12Cd''"
    by code_simp
  then show ?thesis
    using exit_status_of_audit_is_irrelevant
      [of First "sample_env exit_ok audit_finds" sample_request sample_world]
    by simp
qed

text \<open>
  Claim C5. In every variant, take a request whose audit command was run and exited with
  a non-zero status, with the message \<open>msg\<close>, the standard output \<open>out\<close> and the standard
  error \<open>err\<close>. Its response is decided by the parser on \<open>out\<close>, exactly as after a
  success: when \<open>out\<close> does not parse, the response is the parse failure, whose body
  holds \<open>out\<close> and \<open>err\<close>; when \<open>out\<close> parses, the response is the report made from the
  parsed value (status 200), or the general failure when making the report throws. The
  message of the rejection appears nowhere, and the response is the one the endpoint gives
  when the audit command exits with status zero and the same output.
\<close>

theorem failed_audit_falls_back_to_its_output:
  assumes "endpoint v env req w = (res, w')"
    and "Exec (audit_command v) d (ExecErr msg out err) \<in> set (effects w w')"
  shows "(\<forall>parseError. JSON_parse env out = Inl parseError \<longrightarrow>
            res = \<lparr>status = 500,
                   json = JObj [(''error'', JStr ''Failed to parse npm audit output''),
                                (''details'', JStr parseError),
                                (fst (output_keys v), JStr out),
                                (snd (output_keys v), JStr err)]\<rparr>)
     \<and> (\<forall>auditOutput report. JSON_parse env out = Inr auditOutput \<longrightarrow>
            audit_report env auditOutput = Inr report \<longrightarrow> res = report \<and> status res = 200)
     \<and> (\<forall>auditOutput e. JSON_parse env out = Inr auditOutput \<longrightarrow>
            audit_report env auditOutput = Inl e \<longrightarrow> res = audit_failed e)
     \<and> fst (endpoint v (audit_exits_zero env) req w) = res"
proof -
  have same: "fst (endpoint v (audit_exits_zero env) req w) = res"
    using exit_status_of_audit_is_irrelevant [of v env req w] assms(1) by simp
  show ?thesis
    using endpoint_after_audit [OF assms] same
    by (auto simp: parse_failed_def dest: audit_report_status)
qed

theorem failed_audit_falls_back_to_its_output_witness:
  "Exec (audit_command First) ''/tmp/npm-audit-Ab12Cd''
       (ExecErr ''Command failed: npm audit'' ''<one finding>'' []) \<in>
     set (effects sample_world
       (snd (endpoint First (sample_env exit_ok audit_finds) sample_request sample_world)))
   \<and> JSON_parse (sample_env exit_ok audit_finds) ''<one finding>'' =
       Inr (JObj [(''vulnerabilities'', JObj [(''lodash'', sample_finding)]),
                  (''metadata'', sample_metadata 1)])
   \<and> fst (endpoint First (sample_env exit_ok audit_finds) sample_request sample_world) =
       \<lparr>status = 200,
        json = JObj
          [(''vulnerabilities'',
            JArr [JObj
              [(''name'', JStr ''lodash''),
               (''version'', JStr ''<4.17.21''),
               (''vulnerability'', JStr ''Command Injection in lodash''),
               (''severity'', JStr ''high''),
               (''recommendation'', JStr ''Upgrade lodash to version 4.17.21''),
               (''cvssScore'', JNum (36 / 5)),
               (''cvssVector'', JStr ''CVSS:3.1/AV:N/AC:L/PR:H/UI:N/S:U/C:H/I:H/A:H''),
               (''source'', JNum 1106913),
               (''url'', JStr ''https://github.com/advisories/GHSA-35jh-r3h4-6jhm''),
               (''cwe'', JArr [JStr ''CWE-77'', JStr ''CWE-94''])]]),
           (''metadata'', sample_metadata 1)]\<rparr>"
proof -
  have ran: "Exec (audit_command First) ''/tmp/npm-audit-Ab12Cd''
       (ExecErr ''Command failed: npm audit'' ''<one finding>'' []) \<in>
     set (effects sample_world
       (snd (endpoint First (sample_env exit_ok audit_finds) sample_request sample_world)))"
    by code_simp
  have parsed: "JSON_parse (sample_env exit_ok audit_finds) ''<one finding>'' =
       Inr (JObj [(''vulnerabilities'', JObj [(''lodash'', sample_finding)]),
                  (''metadata'', sample_metadata 1)])"
    by code_simp
  have report: "audit_report (sample_env exit_ok audit_finds)
      (JObj [(''vulnerabilities'', JObj [(''lodash'', sample_finding)]),
             (''metadata'', sample_metadata 1)]) =
     Inr \<lparr>status = 200,
        json = JObj
          [(''vulnerabilities'',
            JArr [JObj
              [(''name'', JStr ''lodash''),
               (''version'', JStr ''<4.17.21''),
               (''vulnerability'', JStr ''Command Injection in lodash''),
               (''severity'', JStr ''high''),
               (''recommendation'', JStr ''Upgrade lodash to version 4.17.21''),
               (''cvssScore'', JNum (36 / 5)),
               (''cvssVector'', JStr ''CVSS:3.1/AV:N/AC:L/PR:H/UI:N/S:U/C:H/I:H/A:H''),
               (''source'', JNum 1106913),
               (''url'', JStr ''https://github.com/advisories/GHSA-35jh-r3h4-6jhm''),
               (''cwe'', JArr [JStr ''CWE-77'', JStr ''CWE-94''])]]),
           (''metadata'', sample_metadata 1)]\<rparr>"
    by code_simp
  have "endpoint First (sample_env exit_ok audit_finds) sample_request sample_world =
     (fst (endpoint First (sample_env exit_ok audit_finds) sample_request sample_world),
      snd (endpoint First (sample_env exit_ok audit_finds) sample_request sample_world))"
    by simp
  from failed_audit_falls_back_to_its_output [OF this ran] parsed report ran
  show ?thesis
    by blast
qed

section \<open>Parsing the output of the audit\<close>

text \<open>
  Claim C6. In every variant, when the audit command was run and its standard output is
  not parseable, the response has status 500 and its body holds the fixed error text, the
  message of the parse error, and the captured standard output and standard error as they
  are, under the names of the two variables of the variant.
\<close>

theorem unparseable_audit_output_is_answered_500:
  assumes "endpoint v env req w = (res, w')"
    and "Exec (audit_command v) d r \<in> set (effects w w')"
    and "JSON_parse env (exec_stdout r) = Inl msg"
  shows "res =
     \<lparr>status = 500,
      json = JObj [(''error'', JStr ''Failed to parse npm audit output''),
                   (''details'', JStr msg),
                   (fst (output_keys v), JStr (exec_stdout r)),
                   (snd (output_keys v), JStr (exec_stderr r))]\<rparr>"
  using endpoint_after_audit [OF assms(1,2)] assms(3)
  by (simp add: parse_failed_def)

theorem unparseable_audit_output_is_answered_500_witness:
  "Exec (audit_command First) ''/tmp/npm-audit-Ab12Cd'' audit_garbled \<in>
     set (effects sample_world
       (snd (endpoint First (sample_env exit_ok audit_garbled) sample_request sample_world)))
   \<and> JSON_parse (sample_env exit_ok audit_garbled) (exec_stdout audit_garbled) =
       Inl ''Unexpected end of JSON input''
   \<and> fst (endpoint First (sample_env exit_ok audit_garbled) sample_request sample_world) =
       \<lparr>status = 500,
        json = JObj [(''error'', JStr ''Failed to parse npm audit output''),
                     (''details'', JStr ''Unexpected end of JSON input''),
                     (''stdoutAudit'', JStr ''npm error''),
                     (''stderrAudit'', JStr ''ENOTFOUND'')]\<rparr>"
proof -
  have ran: "Exec (audit_command First) ''/tmp/npm-audit-Ab12Cd'' audit_garbled \<in>
     set (effects sample_world
       (snd (endpoint First (sample_env exit_ok audit_garbled) sample_request sample_world)))"
    by code_simp
  have garbled: "JSON_parse (sample_env exit_ok audit_garbled) (exec_stdout audit_garbled) =
       Inl ''Unexpected end of JSON input''"
    by code_simp
  have "endpoint First (sample_env exit_ok audit_garbled) sample_request sample_world =
     (fst (endpoint First (sample_env exit_ok audit_garbled) sample_request sample_world),
      snd (endpoint First (sample_env exit_ok audit_garbled) sample_request sample_world))"
    by simp
  from unparseable_audit_output_is_answered_500 [OF this ran garbled] ran garbled
  show ?thesis
    by (simp add: audit_garbled_def)
qed

lemma audit_report_without_findings:
  assumes "own_prop out ''vulnerabilities'' = JUndefined \<or> own_prop out ''vulnerabilities'' = JObj []"
  shows "audit_report env (JObj out) =
     Inr \<lparr>status = 200,
          json = JObj [(''vulnerabilities'', JArr []), (''metadata'', own_prop out ''metadata'')]\<rparr>"
  using assms by (auto simp: audit_report_def bind_err_def js_or_def)

text \<open>
  Claim C8. In every variant, when the audit command was run and its output parses to an
  object whose \<^verbatim>\<open>vulnerabilities\<close> is absent or the empty object and whose metadata has the
  total zero, the response has status 200, its list of vulnerabilities is empty, its
  metadata is the tool's metadata as it is, and so the total of its summary is zero.
\<close>

theorem no_findings_give_empty_list_and_zero_total:
  assumes "endpoint v env req w = (res, w')"
    and "Exec (audit_command v) d r \<in> set (effects w w')"
    and "JSON_parse env (exec_stdout r) = Inr (JObj out)"
    and "own_prop out ''vulnerabilities'' = JUndefined \<or> own_prop out ''vulnerabilities'' = JObj []"
    and "summary_total (JObj out) = JNum 0"
  shows "res =
     \<lparr>status = 200,
      json = JObj [(''vulnerabilities'', JArr []), (''metadata'', own_prop out ''metadata'')]\<rparr>
     \<and> summary_total (json res) = JNum 0"
proof -
  have "res =
     \<lparr>status = 200,
      json = JObj [(''vulnerabilities'', JArr []), (''metadata'', own_prop out ''metadata'')]\<rparr>"
    using endpoint_after_audit [OF assms(1,2)] assms(3) audit_report_without_findings [OF assms(4)]
    by simp
  moreover have "summary_total
      (JObj [(''vulnerabilities'', JArr []), (''metadata'', own_prop out ''metadata'')]) =
      summary_total (JObj out)"
    by (simp add: summary_total_def own_prop_def)
  ultimately show ?thesis
    using assms(5) by simp
qed

theorem no_findings_give_empty_list_and_zero_total_witness:
  "Exec (audit_command Third) ''/tmp/npm-audit-Ab12Cd'' audit_clean \<in>
     set (effects sample_world
       (snd (endpoint Third (sample_env exit_ok audit_clean) sample_request sample_world)))
   \<and> JSON_parse (sample_env exit_ok audit_clean) (exec_stdout audit_clean) =
       Inr (JObj [(''vulnerabilities'', JObj []), (''metadata'', sample_metadata 0)])
   \<and> own_prop [(''vulnerabilities'', JObj []), (''metadata'', sample_metadata 0)]
        ''vulnerabilities'' = JObj []
   \<and> summary_total (JObj [(''vulnerabilities'', JObj []), (''metadata'', sample_metadata 0)]) =
       JNum 0
   \<and> fst (endpoint Third (sample_env exit_ok audit_clean) sample_request sample_world) =
       \<lparr>status = 200,
        json = JObj [(''vulnerabilities'', JArr []), (''metadata'', sample_metadata 0)]\<rparr>"
proof -
  have ran: "Exec (audit_command Third) ''/tmp/npm-audit-Ab12Cd'' audit_clean \<in>
     set (effects sample_world
       (snd (endpoint Third (sample_env exit_ok audit_clean) sample_request sample_world)))"
    by code_simp
  have parsed: "JSON_parse (sample_env exit_ok audit_clean) (exec_stdout audit_clean) =
       Inr (JObj [(''vulnerabilities'', JObj []), (''metadata'', sample_metadata 0)])"
    by code_simp
  have empty: "own_prop [(''vulnerabilities'', JObj []), (''metadata'', sample_metadata 0)]
        ''vulnerabilities'' = JUndefined
     \<or> own_prop [(''vulnerabilities'', JObj []), (''metadata'', sample_metadata 0)]
        ''vulnerabilities'' = JObj []"
    by (simp add: own_prop_def)
  have zero: "summary_total
     (JObj [(''vulnerabilities'', JObj []), (''metadata'', sample_metadata 0)]) = JNum 0"
    by code_simp
  have "endpoint Third (sample_env exit_ok audit_clean) sample_request sample_world =
     (fst (endpoint Third (sample_env exit_ok audit_clean) sample_request sample_world),
      snd (endpoint Third (sample_env exit_ok audit_clean) sample_request sample_world))"
    by simp
  from no_findings_give_empty_list_and_zero_total [OF this ran parsed empty zero] ran parsed zero
  show ?thesis
    by (simp add: own_prop_def)
qed

section \<open>Normalising a finding\<close>

lemma get_prop_peek:
  "v \<noteq> JNull \<Longrightarrow> v \<noteq> JUndefined \<Longrightarrow> get_prop env v k = Inr (peek v k)"
  by (cases v) simp_all

lemma get_opt_chain_object:
  "get_opt_chain env (JObj kvs) k j = Inr (peek (own_prop kvs k) j)"
  by (cases "own_prop kvs k") (simp_all add: get_opt_chain_def bind_err_def)

lemma truthy_not_nullish: "truthy v \<Longrightarrow> v \<noteq> JNull \<and> v \<noteq> JUndefined"
  by (cases v) simp_all

lemma recommendation_text_total:
  "recommendation_text env fa =
     Inr (JStr (if truthy fa
                then ''Upgrade '' @ js_toString (number_format env) (peek fa ''name'') @
                     '' to version '' @ js_toString (number_format env) (peek fa ''version'')
                else ''No specific recommendation''))"
  by (auto simp: recommendation_text_def bind_err_def get_prop_peek dest: truthy_not_nullish)

lemma to_vulnerability_object_via:
  assumes "viaInfo (own_prop finding ''via'') = JObj via"
  shows "to_vulnerability env (n, JObj finding) =
     Inr (JObj
       [(''name'', JStr n),
        (''version'', js_or (own_prop finding ''range'') (JStr ''unknown'')),
        (''vulnerability'', own_prop via ''title''),
        (''severity'', js_or (own_prop finding ''severity'') (JStr ''unknown'')),
        (''recommendation'',
           JStr (if truthy (own_prop finding ''fixAvailable'')
                 then ''Upgrade '' @
                      js_toString (number_format env) (peek (own_prop finding ''fixAvailable'') ''name'') @
                      '' to version '' @
                      js_toString (number_format env) (peek (own_prop finding ''fixAvailable'') ''version'')
                 else ''No specific recommendation'')),
        (''cvssScore'', peek (own_prop via ''cvss'') ''score''),
        (''cvssVector'', peek (own_prop via ''cvss'') ''vectorString''),
        (''source'', own_prop via ''source''),
        (''url'', own_prop via ''url''),
        (''cwe'', own_prop via ''cwe'')])"
  using assms
  by (simp add: to_vulnerability_def bind_err_def recommendation_text_total get_opt_chain_object)

lemma to_vulnerability_string_via:
  assumes "viaInfo (own_prop finding ''via'') = JStr s"
  shows "to_vulnerability env (n, JObj finding) =
     Inr (JObj
       [(''name'', JStr n),
        (''version'', js_or (own_prop finding ''range'') (JStr ''unknown'')),
        (''vulnerability'', JStr s),
        (''severity'', js_or (own_prop finding ''severity'') (JStr ''unknown'')),
        (''recommendation'',
           JStr (if truthy (own_prop finding ''fixAvailable'')
                 then ''Upgrade '' @
                      js_toString (number_format env) (peek (own_prop finding ''fixAvailable'') ''name'') @
                      '' to version '' @
                      js_toString (number_format env) (peek (own_prop finding ''fixAvailable'') ''version'')
                 else ''No specific recommendation'')),
        (''cvssScore'', JUndefined),
        (''cvssVector'', JUndefined),
        (''source'', JUndefined),
        (''url'', JUndefined),
        (''cwe'', JUndefined)])"
  using assms
  by (simp add: to_vulnerability_def bind_err_def recommendation_text_total)

text \<open>
  Claim C7 as stated fails on the severity (and on the suggested fix): they are not taken
  from the first element of \<^verbatim>\<open>via\<close>. The sample finding has the severity \<^verbatim>\<open>high\<close> and its
  first advisory the severity \<^verbatim>\<open>low\<close>; the record says \<^verbatim>\<open>high\<close>.
\<close>

theorem severity_is_read_from_the_finding:
  "to_vulnerability (sample_env exit_ok audit_finds) (''lodash'', sample_finding) =
     Inr (JObj
       [(''name'', JStr ''lodash''),
        (''version'', JStr ''<4.17.21''),
        (''vulnerability'', JStr ''Command Injection in lodash''),
        (''severity'', JStr ''high''),
        (''recommendation'', JStr ''Upgrade lodash to version 4.17.21''),
        (''cvssScore'', JNum (36 / 5)),
        (''cvssVector'', JStr ''CVSS:3.1/AV:N/AC:L/PR:H/UI:N/S:U/C:H/I:H/A:H''),
        (''source'', JNum 1106913),
        (''url'', JStr ''https://github.com/advisories/GHSA-35jh-r3h4-6jhm''),
        (''cwe'', JArr [JStr ''CWE-77'', JStr ''CWE-94''])])
   \<and> peek (viaInfo (peek sample_finding ''via'')) ''severity'' = JStr ''low''
   \<and> peek (viaInfo (peek sample_finding ''via'')) ''fixAvailable'' = JUndefined"
  by code_simp

text \<open>
  Claim C7, as amended. For a finding that is an object, the normalisation looks at the
  first element of \<^verbatim>\<open>via\<close> when \<^verbatim>\<open>via\<close> is a list and at \<^verbatim>\<open>via\<close> itself otherwise. When
  that is an object, the title, the CVSS score and vector, the source identifier, the
  reference URL and the weakness classifications are read from it; when it is a string,
  the string is the title and the five others are \<^verbatim>\<open>undefined\<close>. The version range, the
  severity and the suggested fix are read from the finding itself. A missing version range
  or severity gives the string \<^verbatim>\<open>unknown\<close>, a missing fix the text
  \<^verbatim>\<open>No specific recommendation\<close>, and every other missing property \<^verbatim>\<open>undefined\<close>.
\<close>

theorem finding_is_normalised_from_itself_and_first_via:
  "(own_prop finding ''via'' = JArr (JObj via # rest) \<or> own_prop finding ''via'' = JObj via \<longrightarrow>
      to_vulnerability env (n, JObj finding) =
        Inr (JObj
          [(''name'', JStr n),
           (''version'', js_or (own_prop finding ''range'') (JStr ''unknown'')),
           (''vulnerability'', own_prop via ''title''),
           (''severity'', js_or (own_prop finding ''severity'') (JStr ''unknown'')),
           (''recommendation'',
              JStr (if truthy (own_prop finding ''fixAvailable'')
                    then ''Upgrade '' @
                         js_toString (number_format env)
                           (peek (own_prop finding ''fixAvailable'') ''name'') @
                         '' to version '' @
                         js_toString (number_format env)
                           (peek (own_prop finding ''fixAvailable'') ''version'')
                    else ''No specific recommendation'')),
           (''cvssScore'', peek (own_prop via ''cvss'') ''score''),
           (''cvssVector'', peek (own_prop via ''cvss'') ''vectorString''),
           (''source'', own_prop via ''source''),
           (''url'', own_prop via ''url''),
           (''cwe'', own_prop via ''cwe'')]))
   \<and> (own_prop finding ''via'' = JArr (JStr s # rest) \<or> own_prop finding ''via'' = JStr s \<longrightarrow>
      to_vulnerability env (n, JObj finding) =
        Inr (JObj
          [(''name'', JStr n),
           (''version'', js_or (own_prop finding ''range'') (JStr ''unknown'')),
           (''vulnerability'', JStr s),
           (''severity'', js_or (own_prop finding ''severity'') (JStr ''unknown'')),
           (''recommendation'',
              JStr (if truthy (own_prop finding ''fixAvailable'')
                    then ''Upgrade '' @
                         js_toString (number_format env)
                           (peek (own_prop finding ''fixAvailable'') ''name'') @
                         '' to version '' @
                         js_toString (number_format env)
                           (peek (own_prop finding ''fixAvailable'') ''version'')
                    else ''No specific recommendation'')),
           (''cvssScore'', JUndefined),
           (''cvssVector'', JUndefined),
           (''source'', JUndefined),
           (''url'', JUndefined),
           (''cwe'', JUndefined)]))
   \<and> ((own_prop finding ''via'' = JArr (JObj via # rest) \<or> own_prop finding ''via'' = JObj via)
        \<and> map_of finding ''range'' = None \<and> map_of finding ''severity'' = None
        \<and> map_of finding ''fixAvailable'' = None \<and> map_of via ''title'' = None
        \<and> map_of via ''cvss'' = None \<and> map_of via ''source'' = None
        \<and> map_of via ''url'' = None \<and> map_of via ''cwe'' = None \<longrightarrow>
      to_vulnerability env (n, JObj finding) =
        Inr (JObj
          [(''name'', JStr n),
           (''version'', JStr ''unknown''),
           (''vulnerability'', JUndefined),
           (''severity'', JStr ''unknown''),
           (''recommendation'', JStr ''No specific recommendation''),
           (''cvssScore'', JUndefined),
           (''cvssVector'', JUndefined),
           (''source'', JUndefined),
           (''url'', JUndefined),
           (''cwe'', JUndefined)]))"
proof (intro conjI impI)
  assume "own_prop finding ''via'' = JArr (JObj via # rest) \<or> own_prop finding ''via'' = JObj via"
  then have "viaInfo (own_prop finding ''via'') = JObj via"
    by auto
  then show "to_vulnerability env (n, JObj finding) =
        Inr (JObj
          [(''name'', JStr n),
           (''version'', js_or (own_prop finding ''range'') (JStr ''unknown'')),
           (''vulnerability'', own_prop via ''title''),
           (''severity'', js_or (own_prop finding ''severity'') (JStr ''unknown'')),
           (''recommendation'',
              JStr (if truthy (own_prop finding ''fixAvailable'')
                    then ''Upgrade '' @
                         js_toString (number_format env)
                           (peek (own_prop finding ''fixAvailable'') ''name'') @
                         '' to version '' @
                         js_toString (number_format env)
                           (peek (own_prop finding ''fixAvailable'') ''version'')
                    else ''No specific recommendation'')),
           (''cvssScore'', peek (own_prop via ''cvss'') ''score''),
           (''cvssVector'', peek (own_prop via ''cvss'') ''vectorString''),
           (''source'', own_prop via ''source''),
           (''url'', own_prop via ''url''),
           (''cwe'', own_prop via ''cwe'')])"
    by (rule to_vulnerability_object_via)
next
  assume "own_prop finding ''via'' = JArr (JStr s # rest) \<or> own_prop finding ''via'' = JStr s"
  then have "viaInfo (own_prop finding ''via'') = JStr s"
    by auto
  then show "to_vulnerability env (n, JObj finding) =
        Inr (JObj
          [(''name'', JStr n),
           (''version'', js_or (own_prop finding ''range'') (JStr ''unknown'')),
           (''vulnerability'', JStr s),
           (''severity'', js_or (own_prop finding ''severity'') (JStr ''unknown'')),
           (''recommendation'',
              JStr (if truthy (own_prop finding ''fixAvailable'')
                    then ''Upgrade '' @
                         js_toString (number_format env)
                           (peek (own_prop finding ''fixAvailable'') ''name'') @
                         '' to version '' @
                         js_toString (number_format env)
                           (peek (own_prop finding ''fixAvailable'') ''version'')
                    else ''No specific recommendation'')),
           (''cvssScore'', JUndefined),
           (''cvssVector'', JUndefined),
           (''source'', JUndefined),
           (''url'', JUndefined),
           (''cwe'', JUndefined)])"
    by (rule to_vulnerability_string_via)
next
  assume missing: "(own_prop finding ''via'' = JArr (JObj via # rest) \<or> own_prop finding ''via'' = JObj via)
        \<and> map_of finding ''range'' = None \<and> map_of finding ''severity'' = None
        \<and> map_of finding ''fixAvailable'' = None \<and> map_of via ''title'' = None
        \<and> map_of via ''cvss'' = None \<and> map_of via ''source'' = None
        \<and> map_of via ''url'' = None \<and> map_of via ''cwe'' = None"
  then have "viaInfo (own_prop finding ''via'') = JObj via"
    by auto
  from to_vulnerability_object_via [OF this, of env n] missing
  show "to_vulnerability env (n, JObj finding) =
        Inr (JObj
          [(''name'', JStr n),
           (''version'', JStr ''unknown''),
           (''vulnerability'', JUndefined),
           (''severity'', JStr ''unknown''),
           (''recommendation'', JStr ''No specific recommendation''),
           (''cvssScore'', JUndefined),
           (''cvssVector'', JUndefined),
           (''source'', JUndefined),
           (''url'', JUndefined),
           (''cwe'', JUndefined)])"
    by (simp add: own_prop_def js_or_def)
qed

theorem finding_is_normalised_from_itself_and_first_via_witness:
  "own_prop sample_info ''via'' = JArr (JObj sample_advisory # [JStr ''another-package''])
   \<and> to_vulnerability (sample_env exit_ok audit_finds) (''lodash'', JObj sample_info) =
       Inr (JObj
         [(''name'', JStr ''lodash''),
          (''version'', JStr ''<4.17.21''),
          (''vulnerability'', JStr ''Command Injection in lodash''),
          (''severity'', JStr ''high''),
          (''recommendation'', JStr ''Upgrade lodash to version 4.17.21''),
          (''cvssScore'', JNum (36 / 5)),
          (''cvssVector'', JStr ''CVSS:3.1/AV:N/AC:L/PR:H/UI:N/S:U/C:H/I:H/A:H''),
          (''source'', JNum 1106913),
          (''url'', JStr ''https://github.com/advisories/GHSA-35jh-r3h4-6jhm''),
          (''cwe'', JArr [JStr ''CWE-77'', JStr ''CWE-94''])])"
proof -
  have via: "own_prop sample_info ''via'' = JArr (JObj sample_advisory # [JStr ''another-package''])"
    by (simp add: own_prop_def sample_info_def)
  then have "own_prop sample_info ''via'' = JArr (JObj sample_advisory # [JStr ''another-package''])
      \<or> own_prop sample_info ''via'' = JObj sample_advisory"
    by simp
  from finding_is_normalised_from_itself_and_first_via
         [THEN conjunct1, rule_format, OF this,
          of "sample_env exit_ok audit_finds" "''lodash''"] via
  show ?thesis
    by (simp add: own_prop_def sample_info_def sample_advisory_def js_or_def sample_env_def)
qed


end
